theory Spec2Isabelle
  imports Main "HOL-Library.Sublist"
begin

section \<open>Values decoded from JSON, and the Python operations the source applies to them\<close>

text \<open>
  \<open>response.json()\<close> yields \<open>None\<close>, a bool, an int, a float, a str, a list or a
  dict with str keys. A float is carried by the text \<open>str()\<close> prints for it (the only
  things the source does with a value are to print it and to test its truth; zero
  prints as \<open>0.0\<close> or \<open>-0.0\<close>). A dict is its items in insertion order.
\<close>

datatype json =
    JNull
  | JBool bool
  | JInt int
  | JFloat string
  | JStr string
  | JList "json list"
  | JObj "(string \<times> json) list"

text \<open>
  The exceptions that can occur in the query functions. \<open>RequestException\<close> stands for
  \<open>requests.exceptions.RequestException\<close> and all its subclasses (connection errors,
  timeouts, \<open>HTTPError\<close>), with \<open>str(e)\<close> as argument.
\<close>

datatype py_exn =
    RequestException string
  | KeyError json
  | IndexError
  | TypeError
  | AttributeError
  | ValidationError "string list"

definition and_then :: "py_exn + 'a \<Rightarrow> ('a \<Rightarrow> py_exn + 'b) \<Rightarrow> py_exn + 'b" where
  "and_then m f = (case m of Inl e \<Rightarrow> Inl e | Inr v \<Rightarrow> f v)"

text \<open>Truth value of an object, as \<open>if x:\<close> and \<open>x or y\<close> take it.\<close>

fun truthy :: "json \<Rightarrow> bool" where
  "truthy JNull = False"
| "truthy (JBool b) = b"
| "truthy (JInt i) = (i \<noteq> 0)"
| "truthy (JFloat r) = (r \<noteq> ''0.0'' \<and> r \<noteq> ''-0.0'')"
| "truthy (JStr s) = (s \<noteq> [])"
| "truthy (JList xs) = (xs \<noteq> [])"
| "truthy (JObj kvs) = (kvs \<noteq> [])"

text \<open>\<open>x[k]\<close> with a str key: only a dict takes it, and raises \<open>KeyError\<close> without the key.\<close>

fun py_item :: "json \<Rightarrow> string \<Rightarrow> py_exn + json" where
  "py_item (JObj kvs) k = (case map_of kvs k of Some v \<Rightarrow> Inr v | None \<Rightarrow> Inl (KeyError (JStr k)))"
| "py_item x k = Inl TypeError"

text \<open>
  \<open>x[i]\<close> with the int constants \<open>0\<close> and \<open>1\<close> of the source. A dict decoded from JSON
  has str keys only, so an int is never among them.
\<close>

fun py_index :: "json \<Rightarrow> nat \<Rightarrow> py_exn + json" where
  "py_index (JList xs) i = (if i < length xs then Inr (xs ! i) else Inl IndexError)"
| "py_index (JStr s) i = (if i < length s then Inr (JStr [s ! i]) else Inl IndexError)"
| "py_index (JObj kvs) i = Inl (KeyError (JInt (int i)))"
| "py_index x i = Inl TypeError"

text \<open>\<open>x.get(k)\<close> and \<open>x.get(k, d)\<close>: a method of dict only.\<close>

fun py_get_default :: "json \<Rightarrow> string \<Rightarrow> json \<Rightarrow> py_exn + json" where
  "py_get_default (JObj kvs) k d = Inr (case map_of kvs k of Some v \<Rightarrow> v | None \<Rightarrow> d)"
| "py_get_default x k d = Inl AttributeError"

definition py_get :: "json \<Rightarrow> string \<Rightarrow> py_exn + json" where
  "py_get x k = py_get_default x k JNull"

text \<open>\<open>for v in x\<close>: a list gives its elements, a dict its keys, a str its characters.\<close>

fun py_iter :: "json \<Rightarrow> py_exn + json list" where
  "py_iter (JList xs) = Inr xs"
| "py_iter (JObj kvs) = Inr (map (\<lambda>kv. JStr (fst kv)) kvs)"
| "py_iter (JStr s) = Inr (map (\<lambda>c. JStr [c]) s)"
| "py_iter x = Inl TypeError"

definition py_or :: "json \<Rightarrow> json \<Rightarrow> json" where
  "py_or x y = (if truthy x then x else y)"

subsection \<open>Formatting\<close>

definition NL :: string where
  "NL = [CHR 0x0A]"

fun digits :: "nat \<Rightarrow> string" where
  "digits n = (if n < 10 then [char_of (48 + n)]
               else digits (n div 10) @ [char_of (48 + n mod 10)])"

declare digits.simps [simp del]

fun join :: "string \<Rightarrow> string list \<Rightarrow> string" where
  "join sep [] = []"
| "join sep [x] = x"
| "join sep (x # y # ys) = x @ sep @ join sep (y # ys)"

text \<open>
  \<open>str(x)\<close>, which an f-string applies to each value. Inside a list or a dict Python
  prints a str through \<open>repr\<close>; that function (quoting and escaping) is the parameter
  \<open>q\<close>.
\<close>

fun py_str :: "(string \<Rightarrow> string) \<Rightarrow> json \<Rightarrow> string"
  and py_repr :: "(string \<Rightarrow> string) \<Rightarrow> json \<Rightarrow> string" where
  "py_str q (JStr s) = s"
| "py_str q JNull = py_repr q JNull"
| "py_str q (JBool b) = py_repr q (JBool b)"
| "py_str q (JInt i) = py_repr q (JInt i)"
| "py_str q (JFloat r) = py_repr q (JFloat r)"
| "py_str q (JList xs) = py_repr q (JList xs)"
| "py_str q (JObj kvs) = py_repr q (JObj kvs)"
| "py_repr q JNull = ''None''"
| "py_repr q (JBool b) = (if b then ''True'' else ''False'')"
| "py_repr q (JInt i) = (if i < 0 then ''-'' @ digits (nat (- i)) else digits (nat i))"
| "py_repr q (JFloat r) = r"
| "py_repr q (JStr s) = q s"
| "py_repr q (JList xs) = ''['' @ join '', '' (map (py_repr q) xs) @ '']''"
| "py_repr q (JObj kvs) =
     ''{'' @ join '', '' (map (\<lambda>(k, v). q k @ '': '' @ py_repr q v) kvs) @ ''}''"

text \<open>
  An f-string: its parts are evaluated from left to right, and the first exception
  ends the evaluation.
\<close>

fun fstring :: "(py_exn + string) list \<Rightarrow> py_exn + string" where
  "fstring [] = Inr []"
| "fstring (Inl e # ps) = Inl e"
| "fstring (Inr s # ps) = (case fstring ps of Inl e \<Rightarrow> Inl e | Inr t \<Rightarrow> Inr (s @ t))"

definition lit :: "string \<Rightarrow> py_exn + string" where
  "lit s = Inr s"

definition fmt :: "(string \<Rightarrow> string) \<Rightarrow> py_exn + json \<Rightarrow> py_exn + string" where
  "fmt q r = (case r of Inl e \<Rightarrow> Inl e | Inr v \<Rightarrow> Inr (py_str q v))"

text \<open>A list comprehension \<open>[f(x) for x in xs]\<close>, elements in order.\<close>

fun comprehension :: "('a \<Rightarrow> py_exn + 'b) \<Rightarrow> 'a list \<Rightarrow> py_exn + 'b list" where
  "comprehension f [] = Inr []"
| "comprehension f (x # xs) =
     (case f x of Inl e \<Rightarrow> Inl e
      | Inr y \<Rightarrow> (case comprehension f xs of Inl e \<Rightarrow> Inl e | Inr ys \<Rightarrow> Inr (y # ys)))"

section \<open>The world of a query function\<close>

text \<open>
  A query function reads the module global \<open>MORALIS_API_KEY\<close> (\<open>None\<close> when the
  environment variable is not set), reads \<open>Wallet.network_id\<close> (\<open>None\<close> here: any
  object that is not a str), and calls \<open>requests.get\<close> once. The response object is
  used through three members: \<open>raise_for_status()\<close>, which raises \<open>HTTPError\<close> for an
  error status (given here with its message) and returns otherwise, \<open>json()\<close>, which
  returns the decoded body or raises, and the attribute \<open>text\<close>.
\<close>

record request =
  url :: string
  headers :: "(string \<times> string option) list"
  params :: "(string \<times> json) list"

record response =
  raise_for_status :: "string option"
  json_body :: "py_exn + json"
  body_text :: string

record env =
  MORALIS_API_KEY :: "string option"
  Wallet_network_id :: "string option"
  requests_get :: "request \<Rightarrow> py_exn + response"
  repr_str :: "string \<Rightarrow> string"

text \<open>A call yields the requests it has sent and its result: a str, or an exception.\<close>

type_synonym outcome = "request list \<times> (py_exn + string)"

definition sent :: "outcome \<Rightarrow> request list" where
  "sent out = fst out"

definition result :: "outcome \<Rightarrow> py_exn + string" where
  "result out = snd out"

text \<open>\<open>if not MORALIS_API_KEY\<close>\<close>

definition key_missing :: "string option \<Rightarrow> bool" where
  "key_missing k = (case k of None \<Rightarrow> True | Some s \<Rightarrow> s = [])"

text \<open>
  \<open>is_mainnet = Wallet.network_id in ["base", "base-mainnet"]\<close>,
  \<open>chain = "base" if is_mainnet else "base sepolia"\<close>
\<close>

definition is_mainnet :: "string option \<Rightarrow> bool" where
  "is_mainnet network_id = (network_id \<in> set [Some ''base'', Some ''base-mainnet''])"

definition select_chain :: "string option \<Rightarrow> string" where
  "select_chain network_id = (if is_mainnet network_id then ''base'' else ''base sepolia'')"

definition api_headers :: "env \<Rightarrow> (string \<times> string option) list" where
  "api_headers e = [(''accept'', Some ''application/json''), (''X-API-Key'', MORALIS_API_KEY e)]"

text \<open>\<open>response = requests.get(...)\<close>, \<open>response.raise_for_status()\<close>\<close>

definition fetch :: "env \<Rightarrow> request \<Rightarrow> py_exn + response" where
  "fetch e req =
     and_then (requests_get e req) (\<lambda>response.
       case raise_for_status response of
         Some msg \<Rightarrow> Inl (RequestException msg)
       | None \<Rightarrow> Inr response)"

text \<open>
  \<open>except requests.exceptions.RequestException as e: return f"<pre>{str(e)}"\<close>;
  any other exception leaves the function.
\<close>

fun except_RequestException :: "string \<Rightarrow> py_exn + string \<Rightarrow> py_exn + string" where
  "except_RequestException pre (Inl (RequestException msg)) = Inr (pre @ msg)"
| "except_RequestException pre r = r"

section \<open>The query functions\<close>

subsection \<open>\<open>get_token_metadata\<close>\<close>

definition token_metadata_report :: "(string \<Rightarrow> string) \<Rightarrow> json \<Rightarrow> py_exn + string" where
  "token_metadata_report q token_data = fstring
     [lit ''Token Name: '', fmt q (py_get token_data ''name''), lit NL,
      lit ''Symbol: '', fmt q (py_get token_data ''symbol''), lit NL,
      lit ''Decimals: '', fmt q (py_get token_data ''decimals''), lit NL,
      lit ''Total Supply: '', fmt q (py_get token_data ''total_supply_formatted''), lit NL,
      lit ''Contract Address: '', fmt q (py_get token_data ''address''), lit NL,
      lit ''Verified: '', fmt q (py_get token_data ''verified_contract''), lit NL,
      lit ''Logo URL: '', fmt q (py_get token_data ''logo''), lit NL]"

definition get_token_metadata :: "env \<Rightarrow> string \<Rightarrow> outcome" where
  "get_token_metadata e token_address =
     (if key_missing (MORALIS_API_KEY e) then
        ([], Inr ''Error: Moralis API key is missing. Please set the MORALIS_API_KEY environment variable.'')
      else
        let chain = select_chain (Wallet_network_id e);
            req = \<lparr>url = ''https://deep-index.moralis.io/api/v2.2/erc20/metadata'',
                   headers = api_headers e,
                   params = [(''chain'', JStr chain), (''addresses[0]'', JStr token_address)]\<rparr>
        in ([req],
            except_RequestException ''Error fetching token metadata: ''
              (and_then (fetch e req) (\<lambda>response.
               and_then (json_body response) (\<lambda>metadata.
                 if truthy metadata then
                   and_then (py_index metadata 0) (\<lambda>token_data.
                     token_metadata_report (repr_str e) token_data)
                 else Inr ''No metadata found for the provided token address.'')))))"

subsection \<open>\<open>get_wallet_tokens\<close>\<close>

definition wallet_token_block :: "(string \<Rightarrow> string) \<Rightarrow> json \<Rightarrow> py_exn + string" where
  "wallet_token_block q token = fstring
     [lit ''Token: '', fmt q (py_item token ''name''),
      lit '' ('', fmt q (py_item token ''symbol''), lit '')'', lit NL,
      lit ''Balance: '', fmt q (py_item token ''balance_formatted''),
      lit '' '', fmt q (py_item token ''symbol''), lit NL,
      lit ''Contract Address: '', fmt q (py_item token ''token_address''), lit NL,
      lit ''Verified: '',
      and_then (py_item token ''verified_contract'') (\<lambda>v. Inr (if truthy v then ''Yes'' else ''No'')),
      lit NL,
      lit ''Price (USD): '',
      fmt q (and_then (py_item token ''usd_price'') (\<lambda>v. Inr (py_or v (JStr ''N/A'')))),
      lit NL]"

definition get_wallet_tokens :: "env \<Rightarrow> string \<Rightarrow> outcome" where
  "get_wallet_tokens e token_address =
     (let address_id = token_address;
          chain = select_chain (Wallet_network_id e);
          req = \<lparr>url = ''https://deep-index.moralis.io/api/v2.2/wallets/'' @ address_id @ ''/tokens'',
                 headers = api_headers e,
                 params = [(''chain'', JStr chain)]\<rparr>
      in ([req],
          except_RequestException ''Error fetching wallet tokens: ''
            (and_then (fetch e req) (\<lambda>response.
             and_then (json_body response) (\<lambda>body.
             and_then (py_get_default body ''result'' (JList [])) (\<lambda>tokens.
               if truthy tokens then
                 and_then (py_iter tokens) (\<lambda>ts.
                 and_then (comprehension (wallet_token_block (repr_str e)) ts) (\<lambda>blocks.
                   Inr (''Tokens held by '' @ address_id @ '':'' @ NL @ join NL blocks)))
               else Inr (''No tokens found for wallet '' @ address_id @ ''.'')))))))"

subsection \<open>\<open>get_token_details\<close>\<close>

definition token_details_report :: "(string \<Rightarrow> string) \<Rightarrow> json \<Rightarrow> py_exn + string" where
  "token_details_report q token_data = fstring
     [lit ''Token Name: '', fmt q (py_get token_data ''token_name''), lit NL,
      lit ''Symbol: '', fmt q (py_get token_data ''token_symbol''), lit NL,
      lit ''Price (USD): '', fmt q (py_get token_data ''price_usd''), lit NL,
      lit ''Market Cap: '', fmt q (py_get token_data ''market_cap''), lit NL,
      lit ''Security Score: '', fmt q (py_get token_data ''security_score''), lit NL,
      lit ''Token Age (days): '', fmt q (py_get token_data ''token_age_in_days''), lit NL,
      lit ''On-Chain Strength Index: '', fmt q (py_get token_data ''on_chain_strength_index''), lit NL,
      lit ''1-Day Holders Change: '',
      fmt q (and_then (py_item token_data ''holders_change'') (\<lambda>d. py_get d ''1d'')), lit NL,
      lit ''1-Day Volume Change (USD): '',
      fmt q (and_then (py_item token_data ''volume_change_usd'') (\<lambda>d. py_get d ''1d'')), lit NL,
      lit ''1-Month Price Change (%): '',
      fmt q (and_then (py_item token_data ''price_percent_change_usd'') (\<lambda>d. py_get d ''1M'')), lit NL,
      lit ''Logo: '', fmt q (py_get token_data ''token_logo''), lit NL]"

definition get_token_details :: "env \<Rightarrow> string \<Rightarrow> outcome" where
  "get_token_details e token_address =
     (let chain = select_chain (Wallet_network_id e);
          req = \<lparr>url = ''https://deep-index.moralis.io/api/v2.2/discovery/token'',
                 headers = api_headers e,
                 params = [(''chain'', JStr chain), (''token_address'', JStr token_address)]\<rparr>
      in ([req],
          except_RequestException ''Error fetching token details: ''
            (and_then (fetch e req) (\<lambda>response.
             and_then (json_body response) (\<lambda>token_data.
               token_details_report (repr_str e) token_data)))))"

subsection \<open>\<open>get_wallet_nfts\<close>\<close>

definition get_wallet_nfts :: "env \<Rightarrow> string \<Rightarrow> outcome" where
  "get_wallet_nfts e token_address =
     (let wallet_address = token_address;
          chain = select_chain (Wallet_network_id e);
          req = \<lparr>url = ''https://deep-index.moralis.io/api/v2.2/'' @ wallet_address @ ''/nft'',
                 headers = api_headers e,
                 params = [(''chain'', JStr chain), (''format'', JStr ''decimal''),
                           (''media_items'', JStr ''false'')]\<rparr>
      in ([req],
          except_RequestException ''Error fetching wallet NFTs: ''
            (and_then (fetch e req) (\<lambda>response. Inr (body_text response)))))"

subsection \<open>\<open>get_token_pairs\<close>\<close>

definition token_pair_block :: "(string \<Rightarrow> string) \<Rightarrow> json \<Rightarrow> py_exn + string" where
  "token_pair_block q pair = fstring
     [lit ''Pair: '', fmt q (py_item pair ''pair_label''), lit NL,
      lit ''Price (USD): '', fmt q (py_item pair ''usd_price''), lit NL,
      lit ''24hr Price Change (%): '', fmt q (py_item pair ''usd_price_24hr_percent_change''), lit NL,
      lit ''Liquidity (USD): '', fmt q (py_item pair ''liquidity_usd''), lit NL,
      lit ''Exchange Address: '', fmt q (py_item pair ''exchange_address''), lit NL,
      lit ''Base Token: '',
      fmt q (and_then (py_item pair ''pair'') (\<lambda>p. and_then (py_index p 0) (\<lambda>t. py_item t ''token_name''))),
      lit '' ('',
      fmt q (and_then (py_item pair ''pair'') (\<lambda>p. and_then (py_index p 0) (\<lambda>t. py_item t ''token_symbol''))),
      lit '')'', lit NL,
      lit ''Quote Token: '',
      fmt q (and_then (py_item pair ''pair'') (\<lambda>p. and_then (py_index p 1) (\<lambda>t. py_item t ''token_name''))),
      lit '' ('',
      fmt q (and_then (py_item pair ''pair'') (\<lambda>p. and_then (py_index p 1) (\<lambda>t. py_item t ''token_symbol''))),
      lit '')'', lit NL]"

definition get_token_pairs :: "env \<Rightarrow> string \<Rightarrow> outcome" where
  "get_token_pairs e token_address =
     (let chain = select_chain (Wallet_network_id e);
          req = \<lparr>url = ''https://deep-index.moralis.io/api/v2.2/erc20/'' @ token_address @ ''/pairs'',
                 headers = api_headers e,
                 params = [(''chain'', JStr chain)]\<rparr>
      in ([req],
          except_RequestException ''Error fetching token pairs: ''
            (and_then (fetch e req) (\<lambda>response.
             and_then (json_body response) (\<lambda>body.
             and_then (py_get_default body ''pairs'' (JList [])) (\<lambda>pairs.
               if truthy pairs then
                 and_then (py_iter pairs) (\<lambda>ps.
                 and_then (comprehension (token_pair_block (repr_str e)) ps) (\<lambda>blocks.
                   Inr (''Trading pairs for token '' @ token_address @ '':'' @ NL @ join NL blocks)))
               else Inr (''No trading pairs found for token '' @ token_address @ ''.'')))))))"

subsection \<open>\<open>get_trending_tokens\<close>\<close>

text \<open>
  The two parameters have defaults: \<open>None\<close> stands for an argument the caller has not
  given.
\<close>

definition trending_token_block :: "(string \<Rightarrow> string) \<Rightarrow> json \<Rightarrow> py_exn + string" where
  "trending_token_block q token = fstring
     [lit ''Token Name: '', fmt q (py_item token ''token_name''),
      lit '' ('', fmt q (py_item token ''token_symbol''), lit '')'', lit NL,
      lit ''Price (USD): '', fmt q (py_item token ''price_usd''), lit NL,
      lit ''Market Cap: '', fmt q (py_item token ''market_cap''), lit NL,
      lit ''Security Score: '', fmt q (py_item token ''security_score''), lit NL,
      lit ''Logo: '', fmt q (py_item token ''token_logo''), lit NL]"

definition get_trending_tokens :: "env \<Rightarrow> int option \<Rightarrow> int option \<Rightarrow> outcome" where
  "get_trending_tokens e security_score_arg min_market_cap_arg =
     (let security_score = (case security_score_arg of None \<Rightarrow> 80 | Some v \<Rightarrow> v);
          min_market_cap = (case min_market_cap_arg of None \<Rightarrow> 100000 | Some v \<Rightarrow> v);
          req = \<lparr>url = ''https://deep-index.moralis.io/api/v2.2/discovery/tokens/trending'',
                 headers = api_headers e,
                 params = [(''chain'', JStr ''base''), (''security_score'', JInt security_score),
                           (''min_market_cap'', JInt min_market_cap)]\<rparr>
      in ([req],
          except_RequestException ''Error fetching trending tokens: ''
            (and_then (fetch e req) (\<lambda>response.
             and_then (json_body response) (\<lambda>tokens.
             and_then (py_iter tokens) (\<lambda>ts.
             and_then (comprehension (trending_token_block (repr_str e)) ts) (\<lambda>blocks.
               Inr (''Trending Tokens:'' @ NL @ join NL blocks))))))))"

section \<open>The trending-tokens tool and its input schema\<close>

text \<open>
  \<open>TrendingTokensInput\<close> declares \<open>security_score: int = Field(default=80, ge=0, le=100)\<close>
  and \<open>min_market_cap: int = Field(default=100000, ge=0)\<close>. Constructing the model
  takes the default for a field that is not given, checks the bounds, and raises one
  \<open>ValidationError\<close> naming the fields that fail.
\<close>

definition TrendingTokensInput :: "int option \<Rightarrow> int option \<Rightarrow> py_exn + int \<times> int" where
  "TrendingTokensInput security_score_arg min_market_cap_arg =
     (let security_score = (case security_score_arg of None \<Rightarrow> 80 | Some v \<Rightarrow> v);
          min_market_cap = (case min_market_cap_arg of None \<Rightarrow> 100000 | Some v \<Rightarrow> v);
          errors = (if 0 \<le> security_score \<and> security_score \<le> 100 then [] else [''security_score''])
                 @ (if 0 \<le> min_market_cap then [] else [''min_market_cap''])
      in if errors = [] then Inr (security_score, min_market_cap)
         else Inl (ValidationError errors))"

text \<open>
  Modelled from the spec: the dispatch of a registered tool is code of the agent
  framework (\<open>CdpTool\<close> with \<open>args_schema=TrendingTokensInput\<close> and
  \<open>func=get_trending_tokens\<close>), not of this repository. The spec: "Schema validation
  occurs before the bound function executes; on validation failure, the registry reports
  a schema-violation error without invoking the function".
\<close>

definition trendingTokensTool :: "env \<Rightarrow> int option \<Rightarrow> int option \<Rightarrow> outcome" where
  "trendingTokensTool e security_score_arg min_market_cap_arg =
     (case TrendingTokensInput security_score_arg min_market_cap_arg of
        Inl err \<Rightarrow> ([], Inl err)
      | Inr (security_score, min_market_cap) \<Rightarrow>
          get_trending_tokens e (Some security_score) (Some min_market_cap))"

section \<open>Chat mode\<close>

text \<open>
  \<open>input()\<close> returns a line or raises \<open>KeyboardInterrupt\<close>; at the end of the input it
  raises \<open>EOFError\<close>, which \<open>run_chat_mode\<close> does not catch. The agent is a state
  machine outside this repository: asked a question, it streams chunks and then
  finishes, is interrupted, or fails with another exception. A chunk is given by the
  message texts under its keys \<open>"agent"\<close> and \<open>"tools"\<close>.
\<close>

datatype stdin_event = Line string | CtrlC

record chunk =
  agent_content :: "string option"
  tools_content :: "string option"

datatype stream_end = Finished | Interrupted | Failed

datatype ending = Returned | SystemExit0 | Uncaught_EOFError | Uncaught_stream_error

text \<open>
  \<open>str.lower()\<close> on the letters \<open>A\<close> to \<open>Z\<close>. On other characters Python may differ,
  but no character outside \<open>A\<close> to \<open>Z\<close> is mapped to one of \<open>e\<close>, \<open>x\<close>, \<open>i\<close>, \<open>t\<close>.
\<close>

definition lower_char :: "char \<Rightarrow> char" where
  "lower_char c = (let n = (of_char c :: nat) in if 65 \<le> n \<and> n \<le> 90 then char_of (n + 32) else c)"

definition lower :: "string \<Rightarrow> string" where
  "lower s = map lower_char s"

definition print_chunk :: "chunk \<Rightarrow> string list" where
  "print_chunk c =
     (case agent_content c of
        Some t \<Rightarrow> [t]
      | None \<Rightarrow> (case tools_content c of Some t \<Rightarrow> [t] | None \<Rightarrow> []))
     @ [''-------------------'']"

text \<open>
  The \<open>while True\<close> loop, over the events of the standard input. The result is the
  questions sent to the agent, the lines printed, and how the loop ended.
\<close>

fun chat_loop ::
  "('s \<Rightarrow> string \<Rightarrow> chunk list \<times> stream_end \<times> 's) \<Rightarrow> 's \<Rightarrow> stdin_event list
   \<Rightarrow> string list \<times> string list \<times> ending" where
  "chat_loop agent_executor s [] = ([], [], Uncaught_EOFError)"
| "chat_loop agent_executor s (CtrlC # rest) = ([], [''Goodbye Agent!''], SystemExit0)"
| "chat_loop agent_executor s (Line user_input # rest) =
     (if lower user_input = ''exit'' then ([], [], Returned)
      else
        (case agent_executor s user_input of (chunks, fin, s') \<Rightarrow>
           (case fin of
              Finished \<Rightarrow>
                (case chat_loop agent_executor s' rest of (qs, ps, e) \<Rightarrow>
                   (user_input # qs, concat (map print_chunk chunks) @ ps, e))
            | Interrupted \<Rightarrow>
                ([user_input], concat (map print_chunk chunks) @ [''Goodbye Agent!''], SystemExit0)
            | Failed \<Rightarrow>
                ([user_input], concat (map print_chunk chunks), Uncaught_stream_error))))"

definition run_chat_mode ::
  "('s \<Rightarrow> string \<Rightarrow> chunk list \<times> stream_end \<times> 's) \<Rightarrow> 's \<Rightarrow> stdin_event list
   \<Rightarrow> string list \<times> string list \<times> ending" where
  "run_chat_mode agent_executor s events =
     (case chat_loop agent_executor s events of (qs, ps, e) \<Rightarrow>
        (qs, (''Starting chat mode... Type '' @ [CHR 0x27] @ ''exit'' @ [CHR 0x27] @ '' to end.'') # ps, e))"

text \<open>
  The agent finishes its answer to each of the questions \<open>qs\<close>, asked one after the
  other from the state \<open>s\<close>.
\<close>

fun all_finished :: "('s \<Rightarrow> string \<Rightarrow> chunk list \<times> stream_end \<times> 's) \<Rightarrow> 's \<Rightarrow> string list \<Rightarrow> bool" where
  "all_finished agent_executor s [] = True"
| "all_finished agent_executor s (q # qs) =
     (case agent_executor s q of (chunks, fin, s') \<Rightarrow> fin = Finished \<and> all_finished agent_executor s' qs)"

section \<open>Sample worlds and payloads\<close>

text \<open>
  A world in which the upstream gives the same answer to every request; \<open>repr\<close> of a
  str puts it between single quotes.
\<close>

definition answering :: "string option \<Rightarrow> string option \<Rightarrow> py_exn + response \<Rightarrow> env" where
  "answering key network r =
     \<lparr>MORALIS_API_KEY = key, Wallet_network_id = network,
      requests_get = (\<lambda>req. r), repr_str = (\<lambda>s. [CHR 0x27] @ s @ [CHR 0x27])\<rparr>"

definition ok_response :: "json \<Rightarrow> string \<Rightarrow> py_exn + response" where
  "ok_response j t = Inr \<lparr>raise_for_status = None, json_body = Inr j, body_text = t\<rparr>"

definition weth_usdc :: json where
  "weth_usdc = JObj
     [(''pair_label'', JStr ''WETH/USDC''), (''usd_price'', JStr ''3000.5''),
      (''usd_price_24hr_percent_change'', JStr ''-1.2''), (''liquidity_usd'', JStr ''250000.75''),
      (''exchange_address'', JStr ''0xEX''),
      (''pair'', JList [JObj [(''token_name'', JStr ''Wrapped Ether''), (''token_symbol'', JStr ''WETH'')],
                        JObj [(''token_name'', JStr ''USD Coin''), (''token_symbol'', JStr ''USDC'')] ])]"

definition free_token :: "json \<Rightarrow> json" where
  "free_token price = JObj
     [(''name'', JStr ''Airdrop''), (''symbol'', JStr ''AIR''), (''balance_formatted'', JStr ''10''),
      (''token_address'', JStr ''0xA1''), (''verified_contract'', JBool False), (''usd_price'', price)]"

section \<open>Basic facts\<close>

lemmas run_defs = answering_def ok_response_def result_def sent_def Let_def fetch_def and_then_def
  key_missing_def select_chain_def is_mainnet_def api_headers_def lit_def fmt_def py_get_def py_or_def NL_def

lemma and_then_Inl [simp]: "and_then (Inl x) f = Inl x"
  by (simp add: and_then_def)

lemma and_then_Inr [simp]: "and_then (Inr v) f = f v"
  by (simp add: and_then_def)

lemma fstring_lit [simp]:
  "fstring (lit s # ps) = (case fstring ps of Inl e \<Rightarrow> Inl e | Inr t \<Rightarrow> Inr (s @ t))"
  by (simp add: lit_def)

lemma fmt_Inr [simp]: "fmt q (Inr v) = Inr (py_str q v)"
  by (simp add: fmt_def)

lemma fmt_Inl [simp]: "fmt q (Inl x) = Inl x"
  by (simp add: fmt_def)

lemma fetch_fails:
  "requests_get e req = Inl (RequestException msg)
   \<or> (\<exists>r. requests_get e req = Inr r \<and> raise_for_status r = Some msg)
   \<Longrightarrow> fetch e req = Inl (RequestException msg)"
  by (auto simp: fetch_def)

lemma fetch_ok:
  "requests_get e req = Inr r \<Longrightarrow> raise_for_status r = None \<Longrightarrow> fetch e req = Inr r"
  by (simp add: fetch_def)

section \<open>Which result a call returns\<close>

lemma except_RequestException_Inr:
  "except_RequestException pre x = Inr s \<longleftrightarrow>
     x = Inr s \<or> (\<exists>msg. x = Inl (RequestException msg) \<and> s = pre @ msg)"
  by (cases "(pre, x)" rule: except_RequestException.cases) auto

lemma and_then_eq_Inr: "and_then m f = Inr s \<longleftrightarrow> (\<exists>v. m = Inr v \<and> f v = Inr s)"
  by (cases m) simp_all

lemma and_then_eq_Inl: "and_then m f = Inl x \<longleftrightarrow> m = Inl x \<or> (\<exists>v. m = Inr v \<and> f v = Inl x)"
  by (cases m) simp_all

lemma fetch_eq_Inr:
  "fetch e req = Inr r \<longleftrightarrow> requests_get e req = Inr r \<and> raise_for_status r = None"
  by (auto simp: fetch_def and_then_eq_Inr split: option.splits)

lemma py_item_not_request [simp]: "py_item x k \<noteq> Inl (RequestException m)"
  by (cases x) (auto split: option.splits)

lemma py_index_not_request [simp]: "py_index x i \<noteq> Inl (RequestException m)"
  by (cases x) auto

lemma py_get_default_not_request [simp]: "py_get_default x k d \<noteq> Inl (RequestException m)"
  by (cases x) auto

lemma py_get_not_request [simp]: "py_get x k \<noteq> Inl (RequestException m)"
  by (simp add: py_get_def)

lemma py_iter_not_request [simp]: "py_iter x \<noteq> Inl (RequestException m)"
  by (cases x) auto

lemma fmt_eq_Inl [simp]: "fmt q r = Inl x \<longleftrightarrow> r = Inl x"
  by (cases r) simp_all

lemma fstring_Inl: "fstring ps = Inl x \<Longrightarrow> Inl x \<in> set ps"
  by (induction ps rule: fstring.induct) (auto split: sum.splits)

lemma fstring_header: "fstring (lit h # ps) = Inr s \<Longrightarrow> prefix h s"
  by (auto split: sum.splits)

lemma comprehension_Inl: "comprehension f xs = Inl x \<Longrightarrow> \<exists>y\<in>set xs. f y = Inl x"
  by (induction xs) (auto split: sum.splits)

lemma token_metadata_report_not_request: "token_metadata_report q t \<noteq> Inl (RequestException m)"
proof
  assume "token_metadata_report q t = Inl (RequestException m)"
  then have "Inl (RequestException m) \<in> set
     [lit ''Token Name: '', fmt q (py_get t ''name''), lit NL,
      lit ''Symbol: '', fmt q (py_get t ''symbol''), lit NL,
      lit ''Decimals: '', fmt q (py_get t ''decimals''), lit NL,
      lit ''Total Supply: '', fmt q (py_get t ''total_supply_formatted''), lit NL,
      lit ''Contract Address: '', fmt q (py_get t ''address''), lit NL,
      lit ''Verified: '', fmt q (py_get t ''verified_contract''), lit NL,
      lit ''Logo URL: '', fmt q (py_get t ''logo''), lit NL]"
    unfolding token_metadata_report_def by (rule fstring_Inl)
  then show False
    by (simp add: lit_def eq_commute [of "Inl (RequestException m)"])
qed

lemma wallet_token_block_not_request: "wallet_token_block q t \<noteq> Inl (RequestException m)"
proof
  assume "wallet_token_block q t = Inl (RequestException m)"
  then have "Inl (RequestException m) \<in> set
     [lit ''Token: '', fmt q (py_item t ''name''),
      lit '' ('', fmt q (py_item t ''symbol''), lit '')'', lit NL,
      lit ''Balance: '', fmt q (py_item t ''balance_formatted''),
      lit '' '', fmt q (py_item t ''symbol''), lit NL,
      lit ''Contract Address: '', fmt q (py_item t ''token_address''), lit NL,
      lit ''Verified: '',
      and_then (py_item t ''verified_contract'') (\<lambda>v. Inr (if truthy v then ''Yes'' else ''No'')),
      lit NL,
      lit ''Price (USD): '',
      fmt q (and_then (py_item t ''usd_price'') (\<lambda>v. Inr (py_or v (JStr ''N/A'')))),
      lit NL]"
    unfolding wallet_token_block_def by (rule fstring_Inl)
  then show False
    by (simp add: lit_def and_then_eq_Inl eq_commute [of "Inl (RequestException m)"])
qed

lemma token_pair_block_not_request: "token_pair_block q p \<noteq> Inl (RequestException m)"
proof
  assume "token_pair_block q p = Inl (RequestException m)"
  then have "Inl (RequestException m) \<in> set
     [lit ''Pair: '', fmt q (py_item p ''pair_label''), lit NL,
      lit ''Price (USD): '', fmt q (py_item p ''usd_price''), lit NL,
      lit ''24hr Price Change (%): '', fmt q (py_item p ''usd_price_24hr_percent_change''), lit NL,
      lit ''Liquidity (USD): '', fmt q (py_item p ''liquidity_usd''), lit NL,
      lit ''Exchange Address: '', fmt q (py_item p ''exchange_address''), lit NL,
      lit ''Base Token: '',
      fmt q (and_then (py_item p ''pair'') (\<lambda>p. and_then (py_index p 0) (\<lambda>t. py_item t ''token_name''))),
      lit '' ('',
      fmt q (and_then (py_item p ''pair'') (\<lambda>p. and_then (py_index p 0) (\<lambda>t. py_item t ''token_symbol''))),
      lit '')'', lit NL,
      lit ''Quote Token: '',
      fmt q (and_then (py_item p ''pair'') (\<lambda>p. and_then (py_index p 1) (\<lambda>t. py_item t ''token_name''))),
      lit '' ('',
      fmt q (and_then (py_item p ''pair'') (\<lambda>p. and_then (py_index p 1) (\<lambda>t. py_item t ''token_symbol''))),
      lit '')'', lit NL]"
    unfolding token_pair_block_def by (rule fstring_Inl)
  then show False
    by (simp add: lit_def and_then_eq_Inl eq_commute [of "Inl (RequestException m)"])
qed

lemma wallet_tokens_body:
  "sent (get_wallet_tokens e a) = [req] \<Longrightarrow>
   result (get_wallet_tokens e a) =
     except_RequestException ''Error fetching wallet tokens: ''
       (and_then (fetch e req) (\<lambda>response.
        and_then (json_body response) (\<lambda>body.
        and_then (py_get_default body ''result'' (JList [])) (\<lambda>tokens.
          if truthy tokens then
            and_then (py_iter tokens) (\<lambda>ts.
            and_then (comprehension (wallet_token_block (repr_str e)) ts) (\<lambda>blocks.
              Inr (''Tokens held by '' @ a @ '':'' @ NL @ join NL blocks)))
          else Inr (''No tokens found for wallet '' @ a @ ''.'')))))"
  by (auto simp: get_wallet_tokens_def sent_def result_def Let_def)

lemma wallet_tokens_sent: "\<exists>req. sent (get_wallet_tokens e a) = [req]"
  by (simp add: get_wallet_tokens_def sent_def Let_def)

lemma wallet_tokens_cases:
  assumes "sent (get_wallet_tokens e a) = [req]" and "result (get_wallet_tokens e a) = Inr s"
  shows "(\<exists>msg. s = ''Error fetching wallet tokens: '' @ msg)
       \<or> (\<exists>r j t. requests_get e req = Inr r \<and> raise_for_status r = None \<and> json_body r = Inr j
             \<and> py_get_default j ''result'' (JList []) = Inr t
             \<and> (if truthy t then prefix (''Tokens held by '' @ a @ '':'' @ NL) s
                 else s = ''No tokens found for wallet '' @ a @ ''.''))"
  using assms(2) unfolding wallet_tokens_body [OF assms(1)]
  by (auto simp: except_RequestException_Inr and_then_eq_Inr fetch_eq_Inr split: if_splits)

lemma wallet_tokens_report:
  assumes "sent (get_wallet_tokens e a) = [req]"
    and "requests_get e req = Inr r" and "raise_for_status r = None" and "json_body r = Inr j"
    and "py_get_default j ''result'' (JList []) = Inr t" and "truthy t"
    and "result (get_wallet_tokens e a) = Inr s"
  shows "prefix (''Tokens held by '' @ a @ '':'' @ NL) s"
proof -
  have f: "fetch e req = Inr r" using assms(2,3) by (simp add: fetch_eq_Inr)
  from assms(7) show ?thesis
    unfolding wallet_tokens_body [OF assms(1)]
    using f assms(4,5,6) wallet_token_block_not_request
    by (auto simp: except_RequestException_Inr and_then_eq_Inr and_then_eq_Inl dest!: comprehension_Inl)
qed



lemma wallet_tokens_no_data:
  "(result (get_wallet_tokens e a) = Inr (''No tokens found for wallet '' @ a @ ''.'') \<longleftrightarrow>
      (\<exists>req r j t. sent (get_wallet_tokens e a) = [req] \<and> requests_get e req = Inr r
         \<and> raise_for_status r = None \<and> json_body r = Inr j
         \<and> py_get_default j ''result'' (JList []) = Inr t \<and> \<not> truthy t))
   \<and> (\<forall>s. result (get_wallet_tokens e a) = Inr s \<longrightarrow>
         s = ''No tokens found for wallet '' @ a @ ''.''
         \<or> (prefix ''Error '' s \<and> prefix ''Error fetching wallet tokens: '' s)
         \<or> prefix (''Tokens held by '' @ a @ '':'' @ NL) s)
   \<and> (sent (get_wallet_tokens e a) = [req] \<and> requests_get e req = Inr r
         \<and> raise_for_status r = None \<and> json_body r = Inr j
         \<and> py_get_default j ''result'' (JList []) = Inr t \<and> truthy t \<longrightarrow>
       (\<forall>s. result (get_wallet_tokens e a) = Inr s \<longrightarrow>
          prefix (''Tokens held by '' @ a @ '':'' @ NL) s
          \<and> s \<noteq> ''No tokens found for wallet '' @ a @ ''.''))"
proof (intro conjI)
  obtain rq where rq: "sent (get_wallet_tokens e a) = [rq]"
    using wallet_tokens_sent by blast
  show "result (get_wallet_tokens e a) = Inr (''No tokens found for wallet '' @ a @ ''.'') \<longleftrightarrow>
      (\<exists>req r j t. sent (get_wallet_tokens e a) = [req] \<and> requests_get e req = Inr r
         \<and> raise_for_status r = None \<and> json_body r = Inr j
         \<and> py_get_default j ''result'' (JList []) = Inr t \<and> \<not> truthy t)"
  proof
    assume "result (get_wallet_tokens e a) = Inr (''No tokens found for wallet '' @ a @ ''.'')"
    from wallet_tokens_cases [OF rq this] rq show "\<exists>req r j t. sent (get_wallet_tokens e a) = [req]
         \<and> requests_get e req = Inr r \<and> raise_for_status r = None \<and> json_body r = Inr j
         \<and> py_get_default j ''result'' (JList []) = Inr t \<and> \<not> truthy t"
      by (auto split: if_splits)
  next
    assume "\<exists>req r j t. sent (get_wallet_tokens e a) = [req] \<and> requests_get e req = Inr r
         \<and> raise_for_status r = None \<and> json_body r = Inr j
         \<and> py_get_default j ''result'' (JList []) = Inr t \<and> \<not> truthy t"
    then obtain req r j t where h: "sent (get_wallet_tokens e a) = [req]" "requests_get e req = Inr r"
        "raise_for_status r = None" "json_body r = Inr j"
        "py_get_default j ''result'' (JList []) = Inr t" "\<not> truthy t"
      by blast
    have "fetch e req = Inr r" using h(2,3) by (simp add: fetch_eq_Inr)
    then show "result (get_wallet_tokens e a) = Inr (''No tokens found for wallet '' @ a @ ''.'')"
      unfolding wallet_tokens_body [OF h(1)] using h(4,5,6) by simp
  qed
  show "\<forall>s. result (get_wallet_tokens e a) = Inr s \<longrightarrow>
         s = ''No tokens found for wallet '' @ a @ ''.''
         \<or> (prefix ''Error '' s \<and> prefix ''Error fetching wallet tokens: '' s)
         \<or> prefix (''Tokens held by '' @ a @ '':'' @ NL) s"
  proof (intro allI impI)
    fix s assume "result (get_wallet_tokens e a) = Inr s"
    from wallet_tokens_cases [OF rq this]
    show "s = ''No tokens found for wallet '' @ a @ ''.''
         \<or> (prefix ''Error '' s \<and> prefix ''Error fetching wallet tokens: '' s)
         \<or> prefix (''Tokens held by '' @ a @ '':'' @ NL) s"
      by (auto split: if_splits)
  qed
  show "sent (get_wallet_tokens e a) = [req] \<and> requests_get e req = Inr r
         \<and> raise_for_status r = None \<and> json_body r = Inr j
         \<and> py_get_default j ''result'' (JList []) = Inr t \<and> truthy t \<longrightarrow>
       (\<forall>s. result (get_wallet_tokens e a) = Inr s \<longrightarrow>
          prefix (''Tokens held by '' @ a @ '':'' @ NL) s
          \<and> s \<noteq> ''No tokens found for wallet '' @ a @ ''.'')"
    using wallet_tokens_report [of e a req r j t] by auto
qed

lemma token_pairs_body:
  "sent (get_token_pairs e a) = [req] \<Longrightarrow>
   result (get_token_pairs e a) =
     except_RequestException ''Error fetching token pairs: ''
       (and_then (fetch e req) (\<lambda>response.
        and_then (json_body response) (\<lambda>body.
        and_then (py_get_default body ''pairs'' (JList [])) (\<lambda>pairs.
          if truthy pairs then
            and_then (py_iter pairs) (\<lambda>ps.
            and_then (comprehension (token_pair_block (repr_str e)) ps) (\<lambda>blocks.
              Inr (''Trading pairs for token '' @ a @ '':'' @ NL @ join NL blocks)))
          else Inr (''No trading pairs found for token '' @ a @ ''.'')))))"
  by (auto simp: get_token_pairs_def sent_def result_def Let_def)

lemma token_pairs_sent: "\<exists>req. sent (get_token_pairs e a) = [req]"
  by (simp add: get_token_pairs_def sent_def Let_def)

lemma token_pairs_cases:
  assumes "sent (get_token_pairs e a) = [req]" and "result (get_token_pairs e a) = Inr s"
  shows "(\<exists>msg. s = ''Error fetching token pairs: '' @ msg)
       \<or> (\<exists>r j t. requests_get e req = Inr r \<and> raise_for_status r = None \<and> json_body r = Inr j
             \<and> py_get_default j ''pairs'' (JList []) = Inr t
             \<and> (if truthy t then prefix (''Trading pairs for token '' @ a @ '':'' @ NL) s
                 else s = ''No trading pairs found for token '' @ a @ ''.''))"
  using assms(2) unfolding token_pairs_body [OF assms(1)]
  by (auto simp: except_RequestException_Inr and_then_eq_Inr fetch_eq_Inr split: if_splits)

lemma token_pairs_report:
  assumes "sent (get_token_pairs e a) = [req]"
    and "requests_get e req = Inr r" and "raise_for_status r = None" and "json_body r = Inr j"
    and "py_get_default j ''pairs'' (JList []) = Inr t" and "truthy t"
    and "result (get_token_pairs e a) = Inr s"
  shows "prefix (''Trading pairs for token '' @ a @ '':'' @ NL) s"
proof -
  have f: "fetch e req = Inr r" using assms(2,3) by (simp add: fetch_eq_Inr)
  from assms(7) show ?thesis
    unfolding token_pairs_body [OF assms(1)]
    using f assms(4,5,6) token_pair_block_not_request
    by (auto simp: except_RequestException_Inr and_then_eq_Inr and_then_eq_Inl dest!: comprehension_Inl)
qed



lemma token_pairs_no_data:
  "(result (get_token_pairs e a) = Inr (''No trading pairs found for token '' @ a @ ''.'') \<longleftrightarrow>
      (\<exists>req r j t. sent (get_token_pairs e a) = [req] \<and> requests_get e req = Inr r
         \<and> raise_for_status r = None \<and> json_body r = Inr j
         \<and> py_get_default j ''pairs'' (JList []) = Inr t \<and> \<not> truthy t))
   \<and> (\<forall>s. result (get_token_pairs e a) = Inr s \<longrightarrow>
         s = ''No trading pairs found for token '' @ a @ ''.''
         \<or> (prefix ''Error '' s \<and> prefix ''Error fetching token pairs: '' s)
         \<or> prefix (''Trading pairs for token '' @ a @ '':'' @ NL) s)
   \<and> (sent (get_token_pairs e a) = [req] \<and> requests_get e req = Inr r
         \<and> raise_for_status r = None \<and> json_body r = Inr j
         \<and> py_get_default j ''pairs'' (JList []) = Inr t \<and> truthy t \<longrightarrow>
       (\<forall>s. result (get_token_pairs e a) = Inr s \<longrightarrow>
          prefix (''Trading pairs for token '' @ a @ '':'' @ NL) s
          \<and> s \<noteq> ''No trading pairs found for token '' @ a @ ''.''))"
proof (intro conjI)
  obtain rq where rq: "sent (get_token_pairs e a) = [rq]"
    using token_pairs_sent by blast
  show "result (get_token_pairs e a) = Inr (''No trading pairs found for token '' @ a @ ''.'') \<longleftrightarrow>
      (\<exists>req r j t. sent (get_token_pairs e a) = [req] \<and> requests_get e req = Inr r
         \<and> raise_for_status r = None \<and> json_body r = Inr j
         \<and> py_get_default j ''pairs'' (JList []) = Inr t \<and> \<not> truthy t)"
  proof
    assume "result (get_token_pairs e a) = Inr (''No trading pairs found for token '' @ a @ ''.'')"
    from token_pairs_cases [OF rq this] rq show "\<exists>req r j t. sent (get_token_pairs e a) = [req]
         \<and> requests_get e req = Inr r \<and> raise_for_status r = None \<and> json_body r = Inr j
         \<and> py_get_default j ''pairs'' (JList []) = Inr t \<and> \<not> truthy t"
      by (auto split: if_splits)
  next
    assume "\<exists>req r j t. sent (get_token_pairs e a) = [req] \<and> requests_get e req = Inr r
         \<and> raise_for_status r = None \<and> json_body r = Inr j
         \<and> py_get_default j ''pairs'' (JList []) = Inr t \<and> \<not> truthy t"
    then obtain req r j t where h: "sent (get_token_pairs e a) = [req]" "requests_get e req = Inr r"
        "raise_for_status r = None" "json_body r = Inr j"
        "py_get_default j ''pairs'' (JList []) = Inr t" "\<not> truthy t"
      by blast
    have "fetch e req = Inr r" using h(2,3) by (simp add: fetch_eq_Inr)
    then show "result (get_token_pairs e a) = Inr (''No trading pairs found for token '' @ a @ ''.'')"
      unfolding token_pairs_body [OF h(1)] using h(4,5,6) by simp
  qed
  show "\<forall>s. result (get_token_pairs e a) = Inr s \<longrightarrow>
         s = ''No trading pairs found for token '' @ a @ ''.''
         \<or> (prefix ''Error '' s \<and> prefix ''Error fetching token pairs: '' s)
         \<or> prefix (''Trading pairs for token '' @ a @ '':'' @ NL) s"
  proof (intro allI impI)
    fix s assume "result (get_token_pairs e a) = Inr s"
    from token_pairs_cases [OF rq this]
    show "s = ''No trading pairs found for token '' @ a @ ''.''
         \<or> (prefix ''Error '' s \<and> prefix ''Error fetching token pairs: '' s)
         \<or> prefix (''Trading pairs for token '' @ a @ '':'' @ NL) s"
      by (auto split: if_splits)
  qed
  show "sent (get_token_pairs e a) = [req] \<and> requests_get e req = Inr r
         \<and> raise_for_status r = None \<and> json_body r = Inr j
         \<and> py_get_default j ''pairs'' (JList []) = Inr t \<and> truthy t \<longrightarrow>
       (\<forall>s. result (get_token_pairs e a) = Inr s \<longrightarrow>
          prefix (''Trading pairs for token '' @ a @ '':'' @ NL) s
          \<and> s \<noteq> ''No trading pairs found for token '' @ a @ ''.'')"
    using token_pairs_report [of e a req r j t] by auto
qed

lemma token_metadata_body:
  "sent (get_token_metadata e a) = [req] \<Longrightarrow>
   result (get_token_metadata e a) =
     except_RequestException ''Error fetching token metadata: ''
       (and_then (fetch e req) (\<lambda>response.
        and_then (json_body response) (\<lambda>metadata.
          if truthy metadata then
            and_then (py_index metadata 0) (\<lambda>token_data.
              token_metadata_report (repr_str e) token_data)
          else Inr ''No metadata found for the provided token address.'')))"
  by (auto simp: get_token_metadata_def sent_def result_def Let_def split: if_splits)

lemma token_metadata_sent:
  "(sent (get_token_metadata e a) = [] \<and> result (get_token_metadata e a) =
      Inr ''Error: Moralis API key is missing. Please set the MORALIS_API_KEY environment variable.'')
   \<or> (\<exists>req. sent (get_token_metadata e a) = [req])"
  by (simp add: get_token_metadata_def sent_def result_def Let_def)

lemma token_metadata_report_header:
  "token_metadata_report q t = Inr s \<Longrightarrow> prefix ''Token Name: '' s"
  unfolding token_metadata_report_def by (rule fstring_header)

lemma token_metadata_cases:
  assumes "sent (get_token_metadata e a) = [req]" and "result (get_token_metadata e a) = Inr s"
  shows "(\<exists>msg. s = ''Error fetching token metadata: '' @ msg)
       \<or> (\<exists>r j. requests_get e req = Inr r \<and> raise_for_status r = None \<and> json_body r = Inr j
             \<and> (if truthy j then prefix ''Token Name: '' s
                 else s = ''No metadata found for the provided token address.''))"
  using assms(2) unfolding token_metadata_body [OF assms(1)]
  by (auto simp: except_RequestException_Inr and_then_eq_Inr fetch_eq_Inr
      dest: token_metadata_report_header split: if_splits)

lemma token_metadata_report:
  assumes "sent (get_token_metadata e a) = [req]"
    and "requests_get e req = Inr r" and "raise_for_status r = None" and "json_body r = Inr j"
    and "truthy j" and "result (get_token_metadata e a) = Inr s"
  shows "prefix ''Token Name: '' s"
proof -
  have f: "fetch e req = Inr r" using assms(2,3) by (simp add: fetch_eq_Inr)
  from assms(6) show ?thesis
    unfolding token_metadata_body [OF assms(1)]
    using f assms(4,5) token_metadata_report_not_request
    by (auto simp: except_RequestException_Inr and_then_eq_Inr and_then_eq_Inl
        dest: token_metadata_report_header)
qed

lemma token_metadata_no_data:
  "(result (get_token_metadata e a) = Inr ''No metadata found for the provided token address.'' \<longleftrightarrow>
      (\<exists>req r j. sent (get_token_metadata e a) = [req] \<and> requests_get e req = Inr r
         \<and> raise_for_status r = None \<and> json_body r = Inr j \<and> \<not> truthy j))
   \<and> (\<forall>s. result (get_token_metadata e a) = Inr s \<longrightarrow>
         s = ''No metadata found for the provided token address.''
         \<or> s = ''Error: Moralis API key is missing. Please set the MORALIS_API_KEY environment variable.''
         \<or> (prefix ''Error '' s \<and> prefix ''Error fetching token metadata: '' s)
         \<or> prefix ''Token Name: '' s)
   \<and> (sent (get_token_metadata e a) = [req] \<and> requests_get e req = Inr r
         \<and> raise_for_status r = None \<and> json_body r = Inr j \<and> truthy j \<longrightarrow>
       (\<forall>s. result (get_token_metadata e a) = Inr s \<longrightarrow>
          prefix ''Token Name: '' s
          \<and> s \<noteq> ''No metadata found for the provided token address.''))"
proof (intro conjI)
  show "result (get_token_metadata e a) = Inr ''No metadata found for the provided token address.'' \<longleftrightarrow>
      (\<exists>req r j. sent (get_token_metadata e a) = [req] \<and> requests_get e req = Inr r
         \<and> raise_for_status r = None \<and> json_body r = Inr j \<and> \<not> truthy j)"
  proof
    assume res: "result (get_token_metadata e a) = Inr ''No metadata found for the provided token address.''"
    with token_metadata_sent [of e a] obtain rq where rq: "sent (get_token_metadata e a) = [rq]"
      by auto
    from token_metadata_cases [OF rq res] rq
    show "\<exists>req r j. sent (get_token_metadata e a) = [req] \<and> requests_get e req = Inr r
         \<and> raise_for_status r = None \<and> json_body r = Inr j \<and> \<not> truthy j"
      by (auto split: if_splits)
  next
    assume "\<exists>req r j. sent (get_token_metadata e a) = [req] \<and> requests_get e req = Inr r
         \<and> raise_for_status r = None \<and> json_body r = Inr j \<and> \<not> truthy j"
    then obtain req r j where h: "sent (get_token_metadata e a) = [req]" "requests_get e req = Inr r"
        "raise_for_status r = None" "json_body r = Inr j" "\<not> truthy j"
      by blast
    have "fetch e req = Inr r" using h(2,3) by (simp add: fetch_eq_Inr)
    then show "result (get_token_metadata e a) = Inr ''No metadata found for the provided token address.''"
      unfolding token_metadata_body [OF h(1)] using h(4,5) by simp
  qed
  show "\<forall>s. result (get_token_metadata e a) = Inr s \<longrightarrow>
         s = ''No metadata found for the provided token address.''
         \<or> s = ''Error: Moralis API key is missing. Please set the MORALIS_API_KEY environment variable.''
         \<or> (prefix ''Error '' s \<and> prefix ''Error fetching token metadata: '' s)
         \<or> prefix ''Token Name: '' s"
  proof (intro allI impI)
    fix s assume res: "result (get_token_metadata e a) = Inr s"
    show "s = ''No metadata found for the provided token address.''
         \<or> s = ''Error: Moralis API key is missing. Please set the MORALIS_API_KEY environment variable.''
         \<or> (prefix ''Error '' s \<and> prefix ''Error fetching token metadata: '' s)
         \<or> prefix ''Token Name: '' s"
    proof (cases "sent (get_token_metadata e a) = []")
      case True
      with token_metadata_sent [of e a] res show ?thesis by auto
    next
      case False
      with token_metadata_sent [of e a] obtain rq where rq: "sent (get_token_metadata e a) = [rq]"
        by auto
      from token_metadata_cases [OF rq res] show ?thesis
        by (auto split: if_splits)
    qed
  qed
  show "sent (get_token_metadata e a) = [req] \<and> requests_get e req = Inr r
         \<and> raise_for_status r = None \<and> json_body r = Inr j \<and> truthy j \<longrightarrow>
       (\<forall>s. result (get_token_metadata e a) = Inr s \<longrightarrow>
          prefix ''Token Name: '' s
          \<and> s \<noteq> ''No metadata found for the provided token address.'')"
    using token_metadata_report [of e a req r j] by auto
qed

lemma wallet_nfts_body_text:
  "sent (get_wallet_nfts e a) = [req] \<and> requests_get e req = Inr r \<and> raise_for_status r = None
   \<longrightarrow> result (get_wallet_nfts e a) = Inr (body_text r)"
  by (auto simp: get_wallet_nfts_def sent_def result_def Let_def fetch_eq_Inr [THEN iffD2])

section \<open>Results are text: errors of the upstream payload\<close>

text \<open>
  C1: every query function returns, for every upstream response (also one with missing
  or null keys), a report or a text that begins with \<open>Error \<close>, and lets no exception
  out. The functions catch \<open>RequestException\<close> only, and read several keys by
  subscript. So \<open>get_token_details\<close>, answered with status 200 and a JSON object
  without the key \<open>holders_change\<close>, raises \<open>KeyError\<close>; \<open>get_trending_tokens\<close>,
  answered with a token without \<open>token_logo\<close>, does the same; and
  \<open>get_token_metadata\<close>, answered with \<open>[null]\<close>, raises \<open>AttributeError\<close>.
\<close>

theorem C1_missing_key_raises:
  "result (get_token_details (answering (Some ''k'') (Some ''base'')
       (ok_response (JObj [(''token_name'', JStr ''USD Coin''), (''price_usd'', JNull)]) ''body'')) ''0xT'')
     = Inl (KeyError (JStr ''holders_change''))
   \<and> result (get_trending_tokens (answering (Some ''k'') (Some ''base'')
       (ok_response (JList [JObj [(''token_name'', JStr ''Degen''), (''token_symbol'', JStr ''DEGEN''),
          (''price_usd'', JStr ''0.01''), (''market_cap'', JInt 500000), (''security_score'', JInt 90)] ])
        ''body'')) None None)
     = Inl (KeyError (JStr ''token_logo''))
   \<and> result (get_token_metadata (answering (Some ''k'') (Some ''base'')
       (ok_response (JList [JNull]) ''[null]'')) ''0xT'')
     = Inl AttributeError"
  by (simp add: get_token_details_def token_details_report_def get_trending_tokens_def
      trending_token_block_def get_token_metadata_def token_metadata_report_def run_defs)

section \<open>The API key\<close>

text \<open>
  C2: without the API key, every query operation returns a configuration error and
  sends no request. Only \<open>get_token_metadata\<close> tests the key. With
  \<open>MORALIS_API_KEY\<close> equal to \<open>None\<close>, it sends nothing and returns the error text,
  while each of the other five functions sends its request, with the header
  \<open>X-API-Key\<close> set to \<open>None\<close>.
\<close>

theorem C2_requests_without_key:
  "get_token_metadata (answering None (Some ''base'') (ok_response (JList []) ''[]'')) ''0xW''
     = ([], Inr ''Error: Moralis API key is missing. Please set the MORALIS_API_KEY environment variable.'')
   \<and> sent (get_wallet_tokens (answering None (Some ''base'') (ok_response (JObj []) ''{}'')) ''0xW'')
     = [\<lparr>url = ''https://deep-index.moralis.io/api/v2.2/wallets/0xW/tokens'',
         headers = [(''accept'', Some ''application/json''), (''X-API-Key'', None)],
         params = [(''chain'', JStr ''base'')]\<rparr>]
   \<and> map headers (sent (get_token_details (answering None (Some ''base'') (ok_response (JObj []) ''{}'')) ''0xW''))
     = [ [(''accept'', Some ''application/json''), (''X-API-Key'', None)] ]
   \<and> map headers (sent (get_wallet_nfts (answering None (Some ''base'') (ok_response (JObj []) ''{}'')) ''0xW''))
     = [ [(''accept'', Some ''application/json''), (''X-API-Key'', None)] ]
   \<and> map headers (sent (get_token_pairs (answering None (Some ''base'') (ok_response (JObj []) ''{}'')) ''0xW''))
     = [ [(''accept'', Some ''application/json''), (''X-API-Key'', None)] ]
   \<and> map headers (sent (get_trending_tokens (answering None (Some ''base'') (ok_response (JList []) ''[]'')) None None))
     = [ [(''accept'', Some ''application/json''), (''X-API-Key'', None)] ]
   \<and> result (get_wallet_tokens (answering None (Some ''base'') (ok_response (JObj []) ''{}'')) ''0xW'')
     = Inr ''No tokens found for wallet 0xW.''"
  by (simp add: get_token_metadata_def get_wallet_tokens_def get_token_details_def get_wallet_nfts_def
      get_token_pairs_def get_trending_tokens_def run_defs)


section \<open>Empty result sets\<close>

text \<open>
  C3, as stated: for every query operation an empty result set yields a "no data found"
  message of its own, different from an error text and from a report with zero data
  blocks. This fails: \<open>get_wallet_nfts\<close> returns the body of the response as it is,
  and \<open>get_trending_tokens\<close>, answered with the empty list, returns the report header
  followed by zero blocks.
\<close>

theorem C3_counterexample:
  \<open>result (get_wallet_nfts (answering (Some ''k'') (Some ''base'')
       (ok_response (JObj [(''result'', JList [])]) ''{"result": []}'')) ''0xW'')
     = Inr ''{"result": []}''
   \<and> result (get_trending_tokens (answering (Some ''k'') (Some ''base'')
       (ok_response (JList []) ''[]'')) None None)
     = Inr (''Trending Tokens:'' @ NL @ join NL [])\<close>
  by (simp add: get_wallet_nfts_def get_trending_tokens_def run_defs)

text \<open>
  C3, amended: \<open>get_token_metadata\<close>, \<open>get_wallet_tokens\<close> and \<open>get_token_pairs\<close>
  return their "no data found" message exactly when the upstream answers with success
  and an empty result (a decoded body, \<open>result\<close> or \<open>pairs\<close> that is false as a truth
  value, an absent \<open>result\<close> or \<open>pairs\<close> counting as the empty list). Every other
  text that they return is the configuration error (metadata only), or begins with
  \<open>Error fetching <subject>: \<close>, or begins with the header of the report; for a
  non-empty result of a successful answer, every text returned begins with the header of
  the report and is not the message. The message begins neither with \<open>Error \<close> nor
  with the header, so it differs from every error text and from every report, also from
  one with zero blocks. \<open>get_wallet_nfts\<close> returns the body of the response as it is.
\<close>

theorem C3_no_data_message:
  "(result (get_token_metadata e a) = Inr ''No metadata found for the provided token address.'' \<longleftrightarrow>
      (\<exists>req r j. sent (get_token_metadata e a) = [req] \<and> requests_get e req = Inr r
         \<and> raise_for_status r = None \<and> json_body r = Inr j \<and> \<not> truthy j))
   \<and> (\<forall>s. result (get_token_metadata e a) = Inr s \<longrightarrow>
         s = ''No metadata found for the provided token address.''
         \<or> s = ''Error: Moralis API key is missing. Please set the MORALIS_API_KEY environment variable.''
         \<or> (prefix ''Error '' s \<and> prefix ''Error fetching token metadata: '' s)
         \<or> prefix ''Token Name: '' s)
   \<and> (sent (get_token_metadata e a) = [req] \<and> requests_get e req = Inr r
         \<and> raise_for_status r = None \<and> json_body r = Inr j \<and> truthy j \<longrightarrow>
       (\<forall>s. result (get_token_metadata e a) = Inr s \<longrightarrow>
          prefix ''Token Name: '' s
          \<and> s \<noteq> ''No metadata found for the provided token address.''))
   \<and> (result (get_wallet_tokens e a) = Inr (''No tokens found for wallet '' @ a @ ''.'') \<longleftrightarrow>
      (\<exists>req r j t. sent (get_wallet_tokens e a) = [req] \<and> requests_get e req = Inr r
         \<and> raise_for_status r = None \<and> json_body r = Inr j
         \<and> py_get_default j ''result'' (JList []) = Inr t \<and> \<not> truthy t))
   \<and> (\<forall>s. result (get_wallet_tokens e a) = Inr s \<longrightarrow>
         s = ''No tokens found for wallet '' @ a @ ''.''
         \<or> (prefix ''Error '' s \<and> prefix ''Error fetching wallet tokens: '' s)
         \<or> prefix (''Tokens held by '' @ a @ '':'' @ NL) s)
   \<and> (sent (get_wallet_tokens e a) = [req] \<and> requests_get e req = Inr r
         \<and> raise_for_status r = None \<and> json_body r = Inr j
         \<and> py_get_default j ''result'' (JList []) = Inr t \<and> truthy t \<longrightarrow>
       (\<forall>s. result (get_wallet_tokens e a) = Inr s \<longrightarrow>
          prefix (''Tokens held by '' @ a @ '':'' @ NL) s
          \<and> s \<noteq> ''No tokens found for wallet '' @ a @ ''.''))
   \<and> (result (get_token_pairs e a) = Inr (''No trading pairs found for token '' @ a @ ''.'') \<longleftrightarrow>
      (\<exists>req r j t. sent (get_token_pairs e a) = [req] \<and> requests_get e req = Inr r
         \<and> raise_for_status r = None \<and> json_body r = Inr j
         \<and> py_get_default j ''pairs'' (JList []) = Inr t \<and> \<not> truthy t))
   \<and> (\<forall>s. result (get_token_pairs e a) = Inr s \<longrightarrow>
         s = ''No trading pairs found for token '' @ a @ ''.''
         \<or> (prefix ''Error '' s \<and> prefix ''Error fetching token pairs: '' s)
         \<or> prefix (''Trading pairs for token '' @ a @ '':'' @ NL) s)
   \<and> (sent (get_token_pairs e a) = [req] \<and> requests_get e req = Inr r
         \<and> raise_for_status r = None \<and> json_body r = Inr j
         \<and> py_get_default j ''pairs'' (JList []) = Inr t \<and> truthy t \<longrightarrow>
       (\<forall>s. result (get_token_pairs e a) = Inr s \<longrightarrow>
          prefix (''Trading pairs for token '' @ a @ '':'' @ NL) s
          \<and> s \<noteq> ''No trading pairs found for token '' @ a @ ''.''))
   \<and> (sent (get_wallet_nfts e a) = [req] \<and> requests_get e req = Inr r \<and> raise_for_status r = None
       \<longrightarrow> result (get_wallet_nfts e a) = Inr (body_text r))
   \<and> \<not> prefix ''Error '' ''No metadata found for the provided token address.''
   \<and> \<not> prefix ''Token Name: '' ''No metadata found for the provided token address.''
   \<and> \<not> prefix ''Error '' (''No tokens found for wallet '' @ a @ ''.'')
   \<and> \<not> prefix ''Tokens held by '' (''No tokens found for wallet '' @ a @ ''.'')
   \<and> \<not> prefix ''Error '' (''No trading pairs found for token '' @ a @ ''.'')
   \<and> \<not> prefix ''Trading pairs for token '' (''No trading pairs found for token '' @ a @ ''.'')"
proof -
  note m = token_metadata_no_data [of e a req r j]
  note w = wallet_tokens_no_data [of e a req r j t]
  note p = token_pairs_no_data [of e a req r j t]
  note n = wallet_nfts_body_text [of e a req r]
  have l: "\<not> prefix ''Error '' ''No metadata found for the provided token address.''
   \<and> \<not> prefix ''Token Name: '' ''No metadata found for the provided token address.''
   \<and> \<not> prefix ''Error '' (''No tokens found for wallet '' @ a @ ''.'')
   \<and> \<not> prefix ''Tokens held by '' (''No tokens found for wallet '' @ a @ ''.'')
   \<and> \<not> prefix ''Error '' (''No trading pairs found for token '' @ a @ ''.'')
   \<and> \<not> prefix ''Trading pairs for token '' (''No trading pairs found for token '' @ a @ ''.'')"
    by simp
  show ?thesis
    by (rule conjI [OF conjunct1 [OF m]], rule conjI [OF conjunct1 [OF conjunct2 [OF m]]],
        rule conjI [OF conjunct2 [OF conjunct2 [OF m]]],
        rule conjI [OF conjunct1 [OF w]], rule conjI [OF conjunct1 [OF conjunct2 [OF w]]],
        rule conjI [OF conjunct2 [OF conjunct2 [OF w]]],
        rule conjI [OF conjunct1 [OF p]], rule conjI [OF conjunct1 [OF conjunct2 [OF p]]],
        rule conjI [OF conjunct2 [OF conjunct2 [OF p]]],
        rule conjI [OF n], rule l)
qed

theorem C3_no_data_message_witness:
  "result (get_token_metadata (answering (Some ''k'') (Some ''base'') (ok_response (JList []) ''[]'')) ''0xT'')
     = Inr ''No metadata found for the provided token address.''
   \<and> result (get_wallet_tokens (answering (Some ''k'') (Some ''base'')
        (ok_response (JObj [(''result'', JList [])]) ''body'')) ''0xW'')
     = Inr ''No tokens found for wallet 0xW.''
   \<and> result (get_token_pairs (answering (Some ''k'') (Some ''base'') (ok_response (JObj []) ''{}'')) ''0xT'')
     = Inr ''No trading pairs found for token 0xT.''
   \<and> result (get_wallet_nfts (answering (Some ''k'') (Some ''base'') (ok_response (JObj []) ''{}'')) ''0xW'')
     = Inr ''{}''
   \<and> result (get_wallet_tokens (answering (Some ''k'') (Some ''base'')
        (ok_response (JObj [(''result'', JList [free_token JNull])]) ''body'')) ''0xW'')
     \<noteq> Inr ''No tokens found for wallet 0xW.''
   \<and> result (get_token_pairs (answering (Some ''k'') (Some ''base'')
        (ok_response (JObj [(''pairs'', JList [weth_usdc])]) ''body'')) ''0xT'')
     \<noteq> Inr ''No trading pairs found for token 0xT.''
   \<and> result (get_token_metadata (answering (Some ''k'') (Some ''base'')
        (ok_response (JList [JObj [(''name'', JStr ''USD Coin'')]]) ''body'')) ''0xT'')
     \<noteq> Inr ''No metadata found for the provided token address.''"
proof -
  let ?m = "answering (Some ''k'') (Some ''base'') (ok_response (JList []) ''[]'')"
  let ?w = "answering (Some ''k'') (Some ''base'') (ok_response (JObj [(''result'', JList [])]) ''body'')"
  let ?p = "answering (Some ''k'') (Some ''base'') (ok_response (JObj []) ''{}'')"
  let ?w1 = "answering (Some ''k'') (Some ''base'')
        (ok_response (JObj [(''result'', JList [free_token JNull])]) ''body'')"
  let ?p1 = "answering (Some ''k'') (Some ''base'')
        (ok_response (JObj [(''pairs'', JList [weth_usdc])]) ''body'')"
  let ?m1 = "answering (Some ''k'') (Some ''base'')
        (ok_response (JList [JObj [(''name'', JStr ''USD Coin'')]]) ''body'')"
  have 1: "result (get_token_metadata ?m ''0xT'') = Inr ''No metadata found for the provided token address.''"
    using C3_no_data_message [where e = ?m and a = "''0xT''"]
    by (simp add: answering_def ok_response_def get_token_metadata_def sent_def key_missing_def Let_def)
  have 2: "result (get_wallet_tokens ?w ''0xW'') = Inr ''No tokens found for wallet 0xW.''"
    using C3_no_data_message [where e = ?w and a = "''0xW''"]
    by (simp add: answering_def ok_response_def get_wallet_tokens_def sent_def Let_def)
  have 3: "result (get_token_pairs ?p ''0xT'') = Inr ''No trading pairs found for token 0xT.''"
    using C3_no_data_message [where e = ?p and a = "''0xT''"]
    by (simp add: answering_def ok_response_def get_token_pairs_def sent_def Let_def)
  have 4: "result (get_wallet_nfts ?p ''0xW'') = Inr ''{}''"
    using C3_no_data_message [where e = ?p and a = "''0xW''"
        and r = "\<lparr>raise_for_status = None, json_body = Inr (JObj []), body_text = ''{}''\<rparr>"
        and req = "hd (sent (get_wallet_nfts ?p ''0xW''))"]
    by (simp add: answering_def ok_response_def get_wallet_nfts_def sent_def Let_def)
  have 5: "result (get_wallet_tokens ?w1 ''0xW'') \<noteq> Inr ''No tokens found for wallet 0xW.''"
    using C3_no_data_message [where e = ?w1 and a = "''0xW''" and j = "JObj [(''result'', JList [free_token JNull])]"
        and t = "JList [free_token JNull]"
        and r = "\<lparr>raise_for_status = None, json_body = Inr (JObj [(''result'', JList [free_token JNull])]),
                 body_text = ''body''\<rparr>"
        and req = "hd (sent (get_wallet_tokens ?w1 ''0xW''))"]
    by (simp add: answering_def ok_response_def get_wallet_tokens_def sent_def Let_def)
  have 6: "result (get_token_pairs ?p1 ''0xT'') \<noteq> Inr ''No trading pairs found for token 0xT.''"
    using C3_no_data_message [where e = ?p1 and a = "''0xT''" and j = "JObj [(''pairs'', JList [weth_usdc])]"
        and t = "JList [weth_usdc]"
        and r = "\<lparr>raise_for_status = None, json_body = Inr (JObj [(''pairs'', JList [weth_usdc])]),
                 body_text = ''body''\<rparr>"
        and req = "hd (sent (get_token_pairs ?p1 ''0xT''))"]
    by (simp add: answering_def ok_response_def get_token_pairs_def sent_def Let_def)
  have 7: "result (get_token_metadata ?m1 ''0xT'') \<noteq> Inr ''No metadata found for the provided token address.''"
    using C3_no_data_message [where e = ?m1 and a = "''0xT''" and j = "JList [JObj [(''name'', JStr ''USD Coin'')]]"
        and r = "\<lparr>raise_for_status = None, json_body = Inr (JList [JObj [(''name'', JStr ''USD Coin'')]]),
                 body_text = ''body''\<rparr>"
        and req = "hd (sent (get_token_metadata ?m1 ''0xT''))"]
    by (simp add: answering_def ok_response_def get_token_metadata_def sent_def key_missing_def Let_def)
  from 1 2 3 4 5 6 7 show ?thesis by simp
qed

section \<open>Transport failures and error statuses\<close>

text \<open>
  C4: in every query operation, a transport failure (\<open>requests.get\<close> raises a
  \<open>RequestException\<close>) or an error status (\<open>raise_for_status()\<close> raises \<open>HTTPError\<close>)
  of the request that the operation has sent is caught, and the operation returns the
  text \<open>Error fetching <subject>: <cause>\<close>, where the cause is the message of the
  exception. No exception leaves the function.
\<close>

theorem C4_transport_failure_text:
  assumes "requests_get e req = Inl (RequestException msg)
           \<or> (\<exists>r. requests_get e req = Inr r \<and> raise_for_status r = Some msg)"
  shows "(sent (get_token_metadata e a) = [req] \<longrightarrow>
            result (get_token_metadata e a) = Inr (''Error fetching token metadata: '' @ msg))
       \<and> (sent (get_wallet_tokens e a) = [req] \<longrightarrow>
            result (get_wallet_tokens e a) = Inr (''Error fetching wallet tokens: '' @ msg))
       \<and> (sent (get_token_details e a) = [req] \<longrightarrow>
            result (get_token_details e a) = Inr (''Error fetching token details: '' @ msg))
       \<and> (sent (get_wallet_nfts e a) = [req] \<longrightarrow>
            result (get_wallet_nfts e a) = Inr (''Error fetching wallet NFTs: '' @ msg))
       \<and> (sent (get_token_pairs e a) = [req] \<longrightarrow>
            result (get_token_pairs e a) = Inr (''Error fetching token pairs: '' @ msg))
       \<and> (sent (get_trending_tokens e sc mc) = [req] \<longrightarrow>
            result (get_trending_tokens e sc mc) = Inr (''Error fetching trending tokens: '' @ msg))"
proof -
  have f: "fetch e req = Inl (RequestException msg)"
    using assms by (rule fetch_fails)
  have 1: "sent (get_token_metadata e a) = [req] \<longrightarrow>
            result (get_token_metadata e a) = Inr (''Error fetching token metadata: '' @ msg)"
    using f by (auto simp: get_token_metadata_def sent_def result_def Let_def split: if_splits)
  have 2: "sent (get_wallet_tokens e a) = [req] \<longrightarrow>
            result (get_wallet_tokens e a) = Inr (''Error fetching wallet tokens: '' @ msg)"
    using f by (auto simp: get_wallet_tokens_def sent_def result_def Let_def)
  have 3: "sent (get_token_details e a) = [req] \<longrightarrow>
            result (get_token_details e a) = Inr (''Error fetching token details: '' @ msg)"
    using f by (auto simp: get_token_details_def sent_def result_def Let_def)
  have 4: "sent (get_wallet_nfts e a) = [req] \<longrightarrow>
            result (get_wallet_nfts e a) = Inr (''Error fetching wallet NFTs: '' @ msg)"
    using f by (auto simp: get_wallet_nfts_def sent_def result_def Let_def)
  have 5: "sent (get_token_pairs e a) = [req] \<longrightarrow>
            result (get_token_pairs e a) = Inr (''Error fetching token pairs: '' @ msg)"
    using f by (auto simp: get_token_pairs_def sent_def result_def Let_def)
  have 6: "sent (get_trending_tokens e sc mc) = [req] \<longrightarrow>
            result (get_trending_tokens e sc mc) = Inr (''Error fetching trending tokens: '' @ msg)"
    using f by (auto simp: get_trending_tokens_def sent_def result_def Let_def)
  from 1 2 3 4 5 6 show ?thesis by blast
qed

theorem C4_transport_failure_text_witness:
  "result (get_token_metadata (answering (Some ''k'') (Some ''base'') (Inl (RequestException ''timed out''))) ''0xT'')
     = Inr ''Error fetching token metadata: timed out''
   \<and> result (get_wallet_tokens (answering (Some ''k'') (Some ''base'') (Inl (RequestException ''timed out''))) ''0xW'')
     = Inr ''Error fetching wallet tokens: timed out''
   \<and> result (get_token_details (answering (Some ''k'') (Some ''base'') (Inl (RequestException ''timed out''))) ''0xT'')
     = Inr ''Error fetching token details: timed out''
   \<and> result (get_wallet_nfts (answering (Some ''k'') (Some ''base'')
         (Inr \<lparr>raise_for_status = Some ''404 Client Error'', json_body = Inr JNull, body_text = ''body''\<rparr>)) ''0xW'')
     = Inr ''Error fetching wallet NFTs: 404 Client Error''
   \<and> result (get_token_pairs (answering (Some ''k'') (Some ''base'')
         (Inr \<lparr>raise_for_status = Some ''500 Server Error'', json_body = Inr JNull, body_text = ''body''\<rparr>)) ''0xT'')
     = Inr ''Error fetching token pairs: 500 Server Error''
   \<and> result (get_trending_tokens (answering None None (Inl (RequestException ''timed out''))) None None)
     = Inr ''Error fetching trending tokens: timed out''"
proof -
  let ?down = "answering (Some ''k'') (Some ''base'') (Inl (RequestException ''timed out''))"
  let ?e404 = "answering (Some ''k'') (Some ''base'')
         (Inr \<lparr>raise_for_status = Some ''404 Client Error'', json_body = Inr JNull, body_text = ''body''\<rparr>)"
  let ?e500 = "answering (Some ''k'') (Some ''base'')
         (Inr \<lparr>raise_for_status = Some ''500 Server Error'', json_body = Inr JNull, body_text = ''body''\<rparr>)"
  let ?nokey = "answering None None (Inl (RequestException ''timed out''))"
  have 1: "result (get_token_metadata ?down ''0xT'') = Inr ''Error fetching token metadata: timed out''"
    using C4_transport_failure_text [where e = ?down and msg = "''timed out''" and a = "''0xT''"
        and req = "hd (sent (get_token_metadata ?down ''0xT''))"]
    by (simp add: answering_def get_token_metadata_def sent_def key_missing_def Let_def)
  have 2: "result (get_wallet_tokens ?down ''0xW'') = Inr ''Error fetching wallet tokens: timed out''"
    using C4_transport_failure_text [where e = ?down and msg = "''timed out''" and a = "''0xW''"
        and req = "hd (sent (get_wallet_tokens ?down ''0xW''))"]
    by (simp add: answering_def get_wallet_tokens_def sent_def Let_def)
  have 3: "result (get_token_details ?down ''0xT'') = Inr ''Error fetching token details: timed out''"
    using C4_transport_failure_text [where e = ?down and msg = "''timed out''" and a = "''0xT''"
        and req = "hd (sent (get_token_details ?down ''0xT''))"]
    by (simp add: answering_def get_token_details_def sent_def Let_def)
  have 4: "result (get_wallet_nfts ?e404 ''0xW'') = Inr ''Error fetching wallet NFTs: 404 Client Error''"
    using C4_transport_failure_text [where e = ?e404 and msg = "''404 Client Error''" and a = "''0xW''"
        and req = "hd (sent (get_wallet_nfts ?e404 ''0xW''))"]
    by (simp add: answering_def get_wallet_nfts_def sent_def Let_def)
  have 5: "result (get_token_pairs ?e500 ''0xT'') = Inr ''Error fetching token pairs: 500 Server Error''"
    using C4_transport_failure_text [where e = ?e500 and msg = "''500 Server Error''" and a = "''0xT''"
        and req = "hd (sent (get_token_pairs ?e500 ''0xT''))"]
    by (simp add: answering_def get_token_pairs_def sent_def Let_def)
  have 6: "result (get_trending_tokens ?nokey None None) = Inr ''Error fetching trending tokens: timed out''"
    using C4_transport_failure_text [where e = ?nokey and msg = "''timed out''" and sc = None and mc = None
        and req = "hd (sent (get_trending_tokens ?nokey None None))"]
    by (simp add: answering_def get_trending_tokens_def sent_def Let_def)
  from 1 2 3 4 5 6 show ?thesis by simp
qed


section \<open>Defaults and bounds of the trending-tokens tool\<close>

text \<open>
  C5: called with neither parameter, \<open>get_trending_tokens\<close> sends \<open>security_score\<close>
  80 and \<open>min_market_cap\<close> 100000, and the tool called with no arguments calls it
  with these values; a call of the tool with \<open>security_score\<close> 150 is rejected by the
  bounds of the input schema, and no request is sent.
\<close>

theorem C5_trending_defaults_and_bounds:
  "sent (get_trending_tokens e None None) =
     [\<lparr>url = ''https://deep-index.moralis.io/api/v2.2/discovery/tokens/trending'',
       headers = api_headers e,
       params = [(''chain'', JStr ''base''), (''security_score'', JInt 80), (''min_market_cap'', JInt 100000)]\<rparr>]
   \<and> get_trending_tokens e None None = get_trending_tokens e (Some 80) (Some 100000)
   \<and> trendingTokensTool e None None = get_trending_tokens e (Some 80) (Some 100000)
   \<and> sent (trendingTokensTool e (Some 150) mc) = []
   \<and> (\<exists>fields. result (trendingTokensTool e (Some 150) mc) = Inl (ValidationError fields))"
  by (simp add: get_trending_tokens_def trendingTokensTool_def TrendingTokensInput_def sent_def
      result_def Let_def)

theorem C5_trending_defaults_and_bounds_witness:
  "map params (sent (get_trending_tokens (answering (Some ''k'') None (Inl (RequestException ''down''))) None None))
     = [ [(''chain'', JStr ''base''), (''security_score'', JInt 80), (''min_market_cap'', JInt 100000)] ]
   \<and> sent (trendingTokensTool (answering (Some ''k'') None (Inl (RequestException ''down''))) (Some 150) None) = []"
proof -
  note t = C5_trending_defaults_and_bounds [of "answering (Some ''k'') None (Inl (RequestException ''down''))" None]
  have a: "map params (sent (get_trending_tokens (answering (Some ''k'') None (Inl (RequestException ''down''))) None None))
     = [ [(''chain'', JStr ''base''), (''security_score'', JInt 80), (''min_market_cap'', JInt 100000)] ]"
    by (simp only: conjunct1 [OF t] list.map request.simps)
  from t have b: "sent (trendingTokensTool (answering (Some ''k'') None (Inl (RequestException ''down''))) (Some 150) None) = []"
    by blast
  from a b show ?thesis by (rule conjI)
qed

section \<open>The chain of a request\<close>

text \<open>
  C6: every request of a query function other than \<open>get_trending_tokens\<close> carries the
  chain derived from the network id that the wallet has at that call: \<open>base\<close> for the
  ids \<open>base\<close> and \<open>base-mainnet\<close>, \<open>base sepolia\<close> for any other value. The functions
  keep no state between calls, so the chain of a call depends on the network id of that
  call alone. \<open>get_trending_tokens\<close> always sends the chain \<open>base\<close>.
  (\<open>get_token_metadata\<close> sends no request at all without the API key.)
\<close>

theorem C6_chain_selection:
  "map (\<lambda>r. map_of (params r) ''chain'') (sent (get_token_metadata e a))
     = (if key_missing (MORALIS_API_KEY e) then []
        else [Some (JStr (if Wallet_network_id e = Some ''base'' \<or> Wallet_network_id e = Some ''base-mainnet''
                          then ''base'' else ''base sepolia''))])
   \<and> map (\<lambda>r. map_of (params r) ''chain'') (sent (get_wallet_tokens e a))
     = [Some (JStr (if Wallet_network_id e = Some ''base'' \<or> Wallet_network_id e = Some ''base-mainnet''
                    then ''base'' else ''base sepolia''))]
   \<and> map (\<lambda>r. map_of (params r) ''chain'') (sent (get_token_details e a))
     = [Some (JStr (if Wallet_network_id e = Some ''base'' \<or> Wallet_network_id e = Some ''base-mainnet''
                    then ''base'' else ''base sepolia''))]
   \<and> map (\<lambda>r. map_of (params r) ''chain'') (sent (get_wallet_nfts e a))
     = [Some (JStr (if Wallet_network_id e = Some ''base'' \<or> Wallet_network_id e = Some ''base-mainnet''
                    then ''base'' else ''base sepolia''))]
   \<and> map (\<lambda>r. map_of (params r) ''chain'') (sent (get_token_pairs e a))
     = [Some (JStr (if Wallet_network_id e = Some ''base'' \<or> Wallet_network_id e = Some ''base-mainnet''
                    then ''base'' else ''base sepolia''))]
   \<and> map (\<lambda>r. map_of (params r) ''chain'') (sent (get_trending_tokens e sc mc)) = [Some (JStr ''base'')]"
  by (simp add: get_token_metadata_def get_wallet_tokens_def get_token_details_def get_wallet_nfts_def
      get_token_pairs_def get_trending_tokens_def sent_def Let_def select_chain_def is_mainnet_def)

text \<open>Two calls in a row, the wallet changing its network in between.\<close>

theorem C6_chain_selection_witness:
  "map (\<lambda>r. map_of (params r) ''chain'')
     (sent (get_wallet_tokens (answering (Some ''k'') (Some ''base-mainnet'') (Inl (RequestException ''down''))) ''0xW'')
      @ sent (get_wallet_tokens (answering (Some ''k'') (Some ''base-sepolia'') (Inl (RequestException ''down''))) ''0xW'')
      @ sent (get_trending_tokens (answering (Some ''k'') (Some ''base-sepolia'') (Inl (RequestException ''down''))) None None))
   = [Some (JStr ''base''), Some (JStr ''base sepolia''), Some (JStr ''base'')]"
  using C6_chain_selection [of "answering (Some ''k'') (Some ''base-mainnet'') (Inl (RequestException ''down''))" "''0xW''"]
    C6_chain_selection [of "answering (Some ''k'') (Some ''base-sepolia'') (Inl (RequestException ''down''))" "''0xW''" None None]
  by (simp add: answering_def)

section \<open>Reports\<close>

text \<open>
  C7: \<open>get_token_pairs("0xABC...")\<close>, answered with success and exactly one pair with
  label \<open>WETH/USDC\<close>, price \<open>3000.5\<close> and 24h change \<open>-1.2\<close> (and the other keys that
  the function reads), returns the header \<open>Trading pairs for token 0xABC...:\<close> followed
  by one block, whose first lines are \<open>Pair: WETH/USDC\<close>, \<open>Price (USD): 3000.5\<close> and
  \<open>24hr Price Change (%): -1.2\<close>.
\<close>

theorem C7_token_pairs_example:
  assumes "sent (get_token_pairs e ''0xABC...'') = [req]"
    and "requests_get e req = Inr r" and "raise_for_status r = None"
    and "json_body r = Inr body" and "py_get_default body ''pairs'' (JList []) = Inr (JList [p])"
    and "py_item p ''pair_label'' = Inr (JStr ''WETH/USDC'')"
    and "py_item p ''usd_price'' = Inr (JStr ''3000.5'')"
    and "py_item p ''usd_price_24hr_percent_change'' = Inr (JStr ''-1.2'')"
    and "py_item p ''liquidity_usd'' = Inr liq"
    and "py_item p ''exchange_address'' = Inr ex"
    and "py_item p ''pair'' = Inr (JList [b, qt])"
    and "py_item b ''token_name'' = Inr bn" and "py_item b ''token_symbol'' = Inr bs"
    and "py_item qt ''token_name'' = Inr qn" and "py_item qt ''token_symbol'' = Inr qs"
  shows "result (get_token_pairs e ''0xABC...'') =
           Inr (''Trading pairs for token 0xABC...:'' @ NL
                @ ''Pair: WETH/USDC'' @ NL
                @ ''Price (USD): 3000.5'' @ NL
                @ ''24hr Price Change (%): -1.2'' @ NL
                @ ''Liquidity (USD): '' @ py_str (repr_str e) liq @ NL
                @ ''Exchange Address: '' @ py_str (repr_str e) ex @ NL
                @ ''Base Token: '' @ py_str (repr_str e) bn @ '' ('' @ py_str (repr_str e) bs @ '')'' @ NL
                @ ''Quote Token: '' @ py_str (repr_str e) qn @ '' ('' @ py_str (repr_str e) qs @ '')'' @ NL)"
proof -
  have blk: "token_pair_block (repr_str e) p =
           Inr (''Pair: WETH/USDC'' @ NL
                @ ''Price (USD): 3000.5'' @ NL
                @ ''24hr Price Change (%): -1.2'' @ NL
                @ ''Liquidity (USD): '' @ py_str (repr_str e) liq @ NL
                @ ''Exchange Address: '' @ py_str (repr_str e) ex @ NL
                @ ''Base Token: '' @ py_str (repr_str e) bn @ '' ('' @ py_str (repr_str e) bs @ '')'' @ NL
                @ ''Quote Token: '' @ py_str (repr_str e) qn @ '' ('' @ py_str (repr_str e) qs @ '')'' @ NL)"
    using assms(6-15) by (simp add: token_pair_block_def)
  have req: "req = \<lparr>url = ''https://deep-index.moralis.io/api/v2.2/erc20/'' @ ''0xABC...'' @ ''/pairs'',
                 headers = api_headers e,
                 params = [(''chain'', JStr (select_chain (Wallet_network_id e)))]\<rparr>"
    using assms(1) by (simp add: get_token_pairs_def sent_def Let_def)
  have "fetch e req = Inr r"
    using assms(2,3) by (rule fetch_ok)
  then show ?thesis
    using assms(4,5) blk unfolding req
    by (simp add: get_token_pairs_def result_def Let_def)
qed

theorem C7_token_pairs_example_witness:
  "result (get_token_pairs (answering (Some ''k'') (Some ''base'')
       (ok_response (JObj [(''pairs'', JList [weth_usdc])]) ''body'')) ''0xABC...'')
   = Inr (''Trading pairs for token 0xABC...:'' @ NL
          @ ''Pair: WETH/USDC'' @ NL
          @ ''Price (USD): 3000.5'' @ NL
          @ ''24hr Price Change (%): -1.2'' @ NL
          @ ''Liquidity (USD): 250000.75'' @ NL
          @ ''Exchange Address: 0xEX'' @ NL
          @ ''Base Token: Wrapped Ether (WETH)'' @ NL
          @ ''Quote Token: USD Coin (USDC)'' @ NL)"
proof -
  let ?e = "answering (Some ''k'') (Some ''base'') (ok_response (JObj [(''pairs'', JList [weth_usdc])]) ''body'')"
  let ?r = "\<lparr>raise_for_status = None, json_body = Inr (JObj [(''pairs'', JList [weth_usdc])]), body_text = ''body''\<rparr>"
  have s: "sent (get_token_pairs ?e ''0xABC...'') = [hd (sent (get_token_pairs ?e ''0xABC...''))]"
    by (simp add: get_token_pairs_def sent_def Let_def)
  have g: "requests_get ?e (hd (sent (get_token_pairs ?e ''0xABC...''))) = Inr ?r"
    by (simp add: answering_def ok_response_def)
  show ?thesis
    using C7_token_pairs_example [where e = ?e and r = ?r and p = weth_usdc
        and body = "JObj [(''pairs'', JList [weth_usdc])]"
        and liq = "JStr ''250000.75''" and ex = "JStr ''0xEX''"
        and b = "JObj [(''token_name'', JStr ''Wrapped Ether''), (''token_symbol'', JStr ''WETH'')]"
        and qt = "JObj [(''token_name'', JStr ''USD Coin''), (''token_symbol'', JStr ''USDC'')]"
        and bn = "JStr ''Wrapped Ether''" and bs = "JStr ''WETH''"
        and qn = "JStr ''USD Coin''" and qs = "JStr ''USDC''", OF s g]
    by (simp add: weth_usdc_def)
qed


section \<open>The price line of a wallet-tokens report\<close>

text \<open>
  C8: in a \<open>get_wallet_tokens\<close> report, a price absent from the upstream payload is
  rendered as \<open>N/A\<close>. The function reads the price by the subscript
  \<open>token['usd_price']\<close>: for a token object without the key \<open>usd_price\<close> it raises
  \<open>KeyError\<close>, and there is no report at all.
\<close>

theorem C8_absent_price_raises:
  "result (get_wallet_tokens (answering (Some ''k'') (Some ''base'')
     (ok_response (JObj [(''result'', JList [JObj [(''name'', JStr ''USD Coin''), (''symbol'', JStr ''USDC''),
          (''balance_formatted'', JStr ''1.5''), (''token_address'', JStr ''0x83''),
          (''verified_contract'', JBool True)] ])]) ''body'')) ''0xW'')
   = Inl (KeyError (JStr ''usd_price''))"
  by (simp add: get_wallet_tokens_def wallet_token_block_def run_defs)

text \<open>With the key present and the value \<open>null\<close>, the line is there and reads \<open>N/A\<close>.\<close>

lemma wallet_tokens_null_price:
  "result (get_wallet_tokens (answering (Some ''k'') (Some ''base'')
     (ok_response (JObj [(''result'', JList [JObj [(''name'', JStr ''USD Coin''), (''symbol'', JStr ''USDC''),
          (''balance_formatted'', JStr ''1.5''), (''token_address'', JStr ''0x83''),
          (''verified_contract'', JBool True), (''usd_price'', JNull)] ])]) ''body'')) ''0xW'')
   = Inr (''Tokens held by 0xW:'' @ NL @ ''Token: USD Coin (USDC)'' @ NL @ ''Balance: 1.5 USDC'' @ NL
          @ ''Contract Address: 0x83'' @ NL @ ''Verified: Yes'' @ NL @ ''Price (USD): N/A'' @ NL)"
  by (simp add: get_wallet_tokens_def wallet_token_block_def run_defs)



section \<open>Leaving chat mode\<close>

lemma chat_loop_queries:
  "q \<in> set (fst (chat_loop ag s events)) \<Longrightarrow> lower q \<noteq> ''exit''"
proof (induction events arbitrary: s)
  case Nil
  then show ?case by simp
next
  case (Cons ev rest)
  show ?case
  proof (cases ev)
    case CtrlC
    with Cons.prems show ?thesis by simp
  next
    case (Line u)
    show ?thesis
    proof (cases "lower u = ''exit''")
      case True
      with Line Cons.prems show ?thesis by simp
    next
      case False
      obtain chunks fin s' where ag: "ag s u = (chunks, fin, s')"
        by (cases "ag s u") auto
      show ?thesis
      proof (cases fin)
        case Finished
        obtain qs ps en where rec: "chat_loop ag s' rest = (qs, ps, en)"
          by (cases "chat_loop ag s' rest") auto
        from Cons.prems Line False ag Finished rec have "q = u \<or> q \<in> set qs"
          by simp
        then show ?thesis
        proof
          assume "q = u" with False show ?thesis by simp
        next
          assume "q \<in> set qs"
          then have "q \<in> set (fst (chat_loop ag s' rest))" using rec by simp
          then show ?thesis by (rule Cons.IH)
        qed
      next
        case Interrupted
        with Cons.prems Line False ag show ?thesis by auto
      next
        case Failed
        with Cons.prems Line False ag show ?thesis by auto
      qed
    qed
  qed
qed

lemma chat_loop_after_exit:
  "lower u = ''exit'' \<Longrightarrow>
   chat_loop ag s (pre @ Line u # rest) = chat_loop ag s (pre @ [Line u])"
proof (induction pre arbitrary: s)
  case Nil
  then show ?case by simp
next
  case (Cons ev pre)
  show ?case
  proof (cases ev)
    case CtrlC
    then show ?thesis by simp
  next
    case (Line q)
    show ?thesis
    proof (cases "lower q = ''exit''")
      case True
      with Line show ?thesis by simp
    next
      case False
      obtain chunks fin s' where ag: "ag s q = (chunks, fin, s')"
        by (cases "ag s q") auto
      have ih: "chat_loop ag s' (pre @ Line u # rest) = chat_loop ag s' (pre @ [Line u])"
        using Cons.prems by (rule Cons.IH)
      from Line False ag show ?thesis by (cases fin) (simp_all add: ih)
    qed
  qed
qed

lemma chat_loop_exit_after_questions:
  "lower u = ''exit'' \<Longrightarrow> \<forall>q\<in>set qs. lower q \<noteq> ''exit'' \<Longrightarrow> all_finished ag s qs \<Longrightarrow>
   fst (chat_loop ag s (map Line qs @ Line u # rest)) = qs
   \<and> snd (snd (chat_loop ag s (map Line qs @ Line u # rest))) = Returned"
proof (induction qs arbitrary: s)
  case Nil
  then show ?case by simp
next
  case (Cons q qs)
  obtain chunks fin s' where ag: "ag s q = (chunks, fin, s')"
    by (cases "ag s q") auto
  from Cons.prems(3) ag have fin: "fin = Finished" and rest: "all_finished ag s' qs"
    by simp_all
  from Cons.prems(2) have nq: "lower q \<noteq> ''exit''" and nqs: "\<forall>q\<in>set qs. lower q \<noteq> ''exit''"
    by simp_all
  have ih: "fst (chat_loop ag s' (map Line qs @ Line u # rest)) = qs
      \<and> snd (snd (chat_loop ag s' (map Line qs @ Line u # rest))) = Returned"
    using Cons.prems(1) nqs rest by (rule Cons.IH)
  obtain qs' ps e where rec: "chat_loop ag s' (map Line qs @ Line u # rest) = (qs', ps, e)"
    by (cases "chat_loop ag s' (map Line qs @ Line u # rest)") auto
  with ih have "qs' = qs" and "e = Returned" by simp_all
  with nq ag fin rec show ?case by simp
qed

lemma run_chat_mode_fst: "fst (run_chat_mode ag s events) = fst (chat_loop ag s events)"
  by (simp add: run_chat_mode_def split: prod.splits)

lemma run_chat_mode_ending: "snd (snd (run_chat_mode ag s events)) = snd (snd (chat_loop ag s events))"
  by (simp add: run_chat_mode_def split: prod.splits)

text \<open>
  C9: in chat mode, an input whose lowercase form is \<open>exit\<close> ends the loop by a normal
  return, and is not sent to the agent. Read first, nothing is sent. Read after the
  questions \<open>qs\<close>, none of them an exit and each answered to its end, exactly \<open>qs\<close>
  have been sent and \<open>run_chat_mode\<close> returns. Whatever precedes it, the input after
  it has no effect on the run; and whatever the run, such an input is never among the
  questions sent to the agent.
\<close>

theorem C9_exit_ends_chat:
  assumes "lower user_input = ''exit''"
  shows "fst (run_chat_mode ag s (Line user_input # rest)) = []
       \<and> snd (snd (run_chat_mode ag s (Line user_input # rest))) = Returned
       \<and> user_input \<notin> set (fst (run_chat_mode ag s' events))
       \<and> ((\<forall>q\<in>set qs. lower q \<noteq> ''exit'') \<and> all_finished ag s qs \<longrightarrow>
            fst (run_chat_mode ag s (map Line qs @ Line user_input # rest)) = qs
            \<and> snd (snd (run_chat_mode ag s (map Line qs @ Line user_input # rest))) = Returned)
       \<and> run_chat_mode ag s (pre @ Line user_input # rest) = run_chat_mode ag s (pre @ [Line user_input])"
proof -
  have 1: "fst (run_chat_mode ag s (Line user_input # rest)) = []
       \<and> snd (snd (run_chat_mode ag s (Line user_input # rest))) = Returned"
    using assms by (simp add: run_chat_mode_def)
  have 2: "user_input \<notin> set (fst (run_chat_mode ag s' events))"
    using assms chat_loop_queries [of user_input ag s' events] by (auto simp: run_chat_mode_fst)
  have 3: "(\<forall>q\<in>set qs. lower q \<noteq> ''exit'') \<and> all_finished ag s qs \<longrightarrow>
            fst (run_chat_mode ag s (map Line qs @ Line user_input # rest)) = qs
            \<and> snd (snd (run_chat_mode ag s (map Line qs @ Line user_input # rest))) = Returned"
    using chat_loop_exit_after_questions [OF assms, of qs ag s rest]
    by (simp add: run_chat_mode_fst run_chat_mode_ending)
  have 4: "run_chat_mode ag s (pre @ Line user_input # rest) = run_chat_mode ag s (pre @ [Line user_input])"
    using chat_loop_after_exit [OF assms, of ag s pre rest] by (simp add: run_chat_mode_def)
  from 1 2 3 4 show ?thesis by blast
qed

theorem C9_exit_ends_chat_witness:
  "lower ''EXIT'' = ''exit''
   \<and> fst (run_chat_mode (\<lambda>s q. ([], Finished, s)) () [Line ''EXIT'', Line ''hello'']) = []
   \<and> snd (snd (run_chat_mode (\<lambda>s q. ([], Finished, s)) () [Line ''EXIT'', Line ''hello''])) = Returned
   \<and> ''EXIT'' \<notin> set (fst (run_chat_mode (\<lambda>s q. ([], Finished, s)) () [Line ''hello'', Line ''EXIT'']))
   \<and> fst (run_chat_mode (\<lambda>s q. ([], Finished, s)) () [Line ''hello'', Line ''EXIT'', Line ''secret'']) = [''hello'']
   \<and> snd (snd (run_chat_mode (\<lambda>s q. ([], Finished, s)) () [Line ''hello'', Line ''EXIT'', Line ''secret''])) = Returned"
proof -
  let ?ag = "\<lambda>(s::unit) (q::string). ([]::chunk list, Finished, s)"
  have l: "lower ''EXIT'' = ''exit''"
    by (simp add: lower_def lower_char_def char_of_def bit_Suc_0_iff)
  have p: "(\<forall>q\<in>set [''hello'']. lower q \<noteq> ''exit'') \<and> all_finished ?ag () [''hello'']"
    by (simp add: lower_def lower_char_def)
  note t = C9_exit_ends_chat [OF l, where ag = ?ag and s = "()" and s' = "()"
        and events = "[Line ''hello'', Line ''EXIT'']" and qs = "[''hello'']" and pre = "[]"]
  have a: "fst (run_chat_mode ?ag () (Line ''EXIT'' # [Line ''hello''])) = []
     \<and> snd (snd (run_chat_mode ?ag () (Line ''EXIT'' # [Line ''hello'']))) = Returned"
    using t [where rest = "[Line ''hello'']"] by blast
  have b: "''EXIT'' \<notin> set (fst (run_chat_mode ?ag () [Line ''hello'', Line ''EXIT'']))"
    using t [where rest = "[]"] by blast
  have c: "fst (run_chat_mode ?ag () (map Line [''hello''] @ Line ''EXIT'' # [Line ''secret''])) = [''hello'']
     \<and> snd (snd (run_chat_mode ?ag () (map Line [''hello''] @ Line ''EXIT'' # [Line ''secret'']))) = Returned"
    using t [where rest = "[Line ''secret'']"] p by blast
  from l a b c show ?thesis by simp
qed

end
